theory Spec2Isabelle
  imports Main "HOL-Library.Log_Nat"
begin

section \<open>Text and characters\<close>

text \<open>
  The statement text handed to the pipeline is a Python \<open>str\<close>. It is modelled as a
  \<open>string\<close> whose characters are the code points 0 to 255, so every statement below
  speaks about texts made of such code points. Within that range the character classes of
  Python's \<open>re\<close> module, \<open>str.strip\<close> and \<open>str.lower\<close> are as written here.
\<close>

definition code :: "char \<Rightarrow> int" where
  "code c = of_char c"

definition py_isspace :: "char \<Rightarrow> bool" where
  "py_isspace c = (let n = code c in
     (9 \<le> n \<and> n \<le> 13) \<or> (28 \<le> n \<and> n \<le> 32) \<or> n = 133 \<or> n = 160)"

definition py_isdigit :: "char \<Rightarrow> bool" where
  "py_isdigit c = (let n = code c in 48 \<le> n \<and> n \<le> 57)"

definition py_lower :: "char \<Rightarrow> char" where
  "py_lower c = (let n = code c in
     if (65 \<le> n \<and> n \<le> 90) \<or> (192 \<le> n \<and> n \<le> 222 \<and> n \<noteq> 215)
     then char_of (n + 32) else c)"

definition py_upper :: "char \<Rightarrow> char" where
  "py_upper c = (let n = code c in
     if (97 \<le> n \<and> n \<le> 122) \<or> (224 \<le> n \<and> n \<le> 254 \<and> n \<noteq> 247)
     then char_of (n - 32) else c)"

definition lower :: "string \<Rightarrow> string" where
  "lower s = map py_lower s"

definition strip :: "string \<Rightarrow> string" where
  "strip s = rev (dropWhile py_isspace (rev (dropWhile py_isspace s)))"

definition replace_char :: "char \<Rightarrow> string \<Rightarrow> string" where
  \<comment> \<open>\<open>s.replace(c, '')\<close> for a single character \<open>c\<close>\<close>
  "replace_char c s = filter (\<lambda>x. x \<noteq> c) s"

fun startswith :: "string \<Rightarrow> string \<Rightarrow> bool" where
  "startswith s [] = True"
| "startswith [] (p # ps) = False"
| "startswith (x # xs) (p # ps) = (x = p \<and> startswith xs ps)"

fun contains :: "string \<Rightarrow> string \<Rightarrow> bool" where
  \<comment> \<open>\<open>p in s\<close>\<close>
  "contains [] p = (p = [])"
| "contains (x # xs) p = (startswith (x # xs) p \<or> contains xs p)"

section \<open>Regular expressions\<close>

text \<open>
  The patterns of the parser are written in the following syntax tree, and matched with
  the backtracking discipline of Python's \<open>re\<close>: alternatives are tried left to right,
  a greedy repetition tries the longer match first, a lazy one the shorter, and the first
  way of matching the whole pattern is the match. Repetition is over single-character
  atoms, which is all the patterns of the parser use.
\<close>

datatype citem = CChar char | CRange char char | CSpace | CDigit

datatype atom = AChar char | ASet "citem list" | AAny | ADot

datatype regex =
    Eps
  | Lit string
  | One atom
  | Rep atom nat "nat option" bool
  | Cat regex regex
  | Alt regex regex
  | Grp nat regex
  | Look regex
  | Eos

text \<open>A stack entry is a pattern still to be matched, or the end of a capturing group
  together with the text that remained when the group was entered.\<close>

datatype item = R regex | Close nat string

type_synonym caps = "(nat \<times> string) list"

fun citem_ok :: "citem \<Rightarrow> char \<Rightarrow> bool" where
  "citem_ok (CChar a) x = (x = a)"
| "citem_ok (CRange a b) x = (code a \<le> code x \<and> code x \<le> code b)"
| "citem_ok CSpace x = py_isspace x"
| "citem_ok CDigit x = py_isdigit x"

definition in_set :: "citem list \<Rightarrow> char \<Rightarrow> bool" where
  "in_set cs x = list_ex (\<lambda>i. citem_ok i x) cs"

fun atom_ok :: "bool \<Rightarrow> atom \<Rightarrow> char \<Rightarrow> bool" where
  "atom_ok ci (AChar a) x = (if ci then py_lower x = py_lower a else x = a)"
| "atom_ok ci (ASet cs) x =
     (if ci then in_set cs (py_lower x) \<or> in_set cs (py_upper (py_lower x))
      else in_set cs x)"
| "atom_ok ci AAny x = True"
| "atom_ok ci ADot x = (x \<noteq> CHR ''\<newline>'')"

fun rsz :: "regex \<Rightarrow> nat" where
  "rsz (Cat a b) = Suc (rsz a + rsz b)"
| "rsz (Alt a b) = Suc (rsz a + rsz b)"
| "rsz (Grp n r) = Suc (Suc (rsz r))"
| "rsz (Look r) = Suc (rsz r)"
| "rsz r = Suc 0"

fun isz :: "item \<Rightarrow> nat" where
  "isz (R r) = rsz r"
| "isz (Close n s) = Suc 0"

definition dec_hi :: "nat option \<Rightarrow> nat option" where
  "dec_hi hi = map_option (\<lambda>h. h - 1) hi"

function mt :: "bool \<Rightarrow> item list \<Rightarrow> string \<Rightarrow> caps \<Rightarrow> (string \<times> caps) option" where
  "mt ci [] s c = Some (s, c)"
| "mt ci (Close n s0 # k) s c = mt ci k s ((n, take (length s0 - length s) s0) # c)"
| "mt ci (R Eps # k) s c = mt ci k s c"
| "mt ci (R (Lit []) # k) s c = mt ci k s c"
| "mt ci (R (Lit (a # as)) # k) s c =
     (case s of [] \<Rightarrow> None
      | x # xs \<Rightarrow> if atom_ok ci (AChar a) x then mt ci (R (Lit as) # k) xs c else None)"
| "mt ci (R (One a) # k) s c =
     (case s of [] \<Rightarrow> None
      | x # xs \<Rightarrow> if atom_ok ci a x then mt ci k xs c else None)"
| "mt ci (R (Rep a lo hi g) # k) s c =
     (if 0 < lo then
        (case s of [] \<Rightarrow> None
         | x # xs \<Rightarrow> if atom_ok ci a x then mt ci (R (Rep a (lo - 1) (dec_hi hi) g) # k) xs c
                     else None)
      else if hi = Some 0 then mt ci k s c
      else if g then
        (case (case s of [] \<Rightarrow> None
               | x # xs \<Rightarrow> if atom_ok ci a x then mt ci (R (Rep a 0 (dec_hi hi) g) # k) xs c
                           else None) of
           Some res \<Rightarrow> Some res
         | None \<Rightarrow> mt ci k s c)
      else
        (case mt ci k s c of
           Some res \<Rightarrow> Some res
         | None \<Rightarrow>
             (case s of [] \<Rightarrow> None
              | x # xs \<Rightarrow> if atom_ok ci a x then mt ci (R (Rep a 0 (dec_hi hi) g) # k) xs c
                          else None)))"
| "mt ci (R (Cat r1 r2) # k) s c = mt ci (R r1 # R r2 # k) s c"
| "mt ci (R (Alt r1 r2) # k) s c =
     (case mt ci (R r1 # k) s c of
        Some res \<Rightarrow> Some res
      | None \<Rightarrow> mt ci (R r2 # k) s c)"
| "mt ci (R (Grp n r) # k) s c = mt ci (R r # Close n s # k) s c"
| "mt ci (R (Look r) # k) s c =
     (case mt ci [R r] s c of None \<Rightarrow> None | Some res \<Rightarrow> mt ci k s c)"
| "mt ci (R Eos # k) s c =
     (if s = [] \<or> s = [CHR ''\<newline>''] then mt ci k s c else None)"
  by pat_completeness auto
termination
  by (relation "measures [\<lambda>(ci, k, s, c). length s, \<lambda>(ci, k, s, c). sum_list (map isz k)]")
     auto

record rmatch =
  m_start :: nat
  m_end :: nat
  m_text :: string
  m_groups :: caps
  m_rest :: string

definition grp :: "nat \<Rightarrow> rmatch \<Rightarrow> string" where
  \<comment> \<open>\<open>match.group(n)\<close> for a group that took part in the match\<close>
  "grp n m = (case map_of (m_groups m) n of Some t \<Rightarrow> t | None \<Rightarrow> [])"

fun scan :: "bool \<Rightarrow> regex \<Rightarrow> nat \<Rightarrow> string \<Rightarrow> rmatch option" where
  "scan ci r pos [] =
     (case mt ci [R r] [] [] of
        Some (rest, c) \<Rightarrow>
          Some \<lparr>m_start = pos, m_end = pos, m_text = [], m_groups = c, m_rest = rest\<rparr>
      | None \<Rightarrow> None)"
| "scan ci r pos (x # xs) =
     (case mt ci [R r] (x # xs) [] of
        Some (rest, c) \<Rightarrow>
          Some \<lparr>m_start = pos, m_end = pos + (length (x # xs) - length rest),
                m_text = take (length (x # xs) - length rest) (x # xs),
                m_groups = c, m_rest = rest\<rparr>
      | None \<Rightarrow> scan ci r (Suc pos) xs)"

definition re_search :: "bool \<Rightarrow> regex \<Rightarrow> string \<Rightarrow> rmatch option" where
  "re_search ci r s = scan ci r 0 s"

definition matches :: "bool \<Rightarrow> regex \<Rightarrow> string \<Rightarrow> bool" where
  "matches ci r s = (re_search ci r s \<noteq> None)"

fun rseq :: "regex list \<Rightarrow> regex" where
  "rseq [] = Eps"
| "rseq [r] = r"
| "rseq (r # rs) = Cat r (rseq rs)"

fun ralt :: "regex list \<Rightarrow> regex" where
  "ralt [] = Eps"
| "ralt [r] = r"
| "ralt (r # rs) = Alt r (ralt rs)"

definition lits :: "string list \<Rightarrow> regex" where
  "lits ws = ralt (map Lit ws)"

definition opt :: "regex \<Rightarrow> regex" where
  "opt r = Alt r Eps"

definition rplus :: "atom \<Rightarrow> regex" where
  "rplus a = Rep a 1 None True"

definition ws1 :: regex where
  \<comment> \<open>\<open>\s+\<close>\<close>
  "ws1 = rplus (ASet [CSpace])"

definition digits :: "nat \<Rightarrow> nat \<Rightarrow> regex" where
  \<comment> \<open>\<open>\d{lo,hi}\<close>\<close>
  "digits lo hi = Rep (ASet [CDigit]) lo (Some hi) True"


function finditer_from :: "bool \<Rightarrow> regex \<Rightarrow> nat \<Rightarrow> string \<Rightarrow> rmatch list" where
  "finditer_from ci r pos s =
     (case scan ci r pos s of
        None \<Rightarrow> []
      | Some m \<Rightarrow>
          m # (if length (m_rest m) < length s \<and> m_start m < m_end m
               then finditer_from ci r (m_end m) (m_rest m)
               else []))"
  by pat_completeness auto
termination
  by (relation "measure (\<lambda>(ci, r, pos, s). length s)") auto

definition finditer :: "bool \<Rightarrow> regex \<Rightarrow> string \<Rightarrow> rmatch list" where
  \<comment> \<open>\<open>re.finditer\<close>: the successive non-overlapping matches, each search resuming where
      the previous match ended. The transaction patterns cannot match the empty string;
      the scan stops at an empty match.\<close>
  "finditer ci r s = finditer_from ci r 0 s"

section \<open>Numbers\<close>

text \<open>
  A Python \<open>float\<close> is a binary64 value. It is modelled by the rational number it
  denotes; \<open>fl\<close> rounds a rational to the nearest number with a 53-bit significand, ties
  to even. The exponent range is not bounded in the model: the values of this program
  overflow or underflow binary64 only for amount tokens of several hundred digits.
\<close>

definition pow2 :: "int \<Rightarrow> rat" where
  "pow2 k = (if 0 \<le> k then 2 ^ nat k else 1 / 2 ^ nat (- k))"

definition ilog2 :: "rat \<Rightarrow> int" where
  \<comment> \<open>for \<open>0 < x\<close>: the \<open>e\<close> with \<open>2^e \<le> x < 2^(e+1)\<close>\<close>
  "ilog2 x = (case quotient_of x of (p, q) \<Rightarrow>
     let d = bitlen p - bitlen q in if pow2 d \<le> x then d else d - 1)"

definition rne :: "rat \<Rightarrow> int" where
  \<comment> \<open>round to the nearest integer, ties to even\<close>
  "rne x = (let f = \<lfloor>x\<rfloor>; d = x - of_int f in
     if d < 1 / 2 then f else if 1 / 2 < d then f + 1 else if even f then f else f + 1)"

definition fl :: "rat \<Rightarrow> rat" where
  "fl x = (if x = 0 then 0
           else let q = pow2 (ilog2 \<bar>x\<bar> - 52) in of_int (rne (x / q)) * q)"

definition fl_add :: "rat \<Rightarrow> rat \<Rightarrow> rat" where
  "fl_add x y = fl (x + y)"

definition fl_mul :: "rat \<Rightarrow> rat \<Rightarrow> rat" where
  "fl_mul x y = fl (x * y)"

definition fl_div :: "rat \<Rightarrow> rat \<Rightarrow> rat" where
  "fl_div x y = fl (x / y)"

definition py_min :: "rat \<Rightarrow> rat \<Rightarrow> rat" where
  \<comment> \<open>\<open>min(a, b)\<close> keeps \<open>a\<close> unless \<open>b\<close> is smaller\<close>
  "py_min a b = (if b < a then b else a)"

definition digit_val :: "char \<Rightarrow> int" where
  "digit_val c = code c - 48"

definition int_of_digits :: "string \<Rightarrow> int" where
  "int_of_digits s = foldl (\<lambda>n c. 10 * n + digit_val c) 0 s"

datatype error = ValueError

definition py_float :: "string \<Rightarrow> rat option" where
  \<comment> \<open>\<open>float(s)\<close> on the decimal shapes an amount token can have: an optional sign,
      digits, and an optional point followed by digits, with a digit somewhere. Python
      accepts further spellings (exponents, underscores, surrounding blanks, \<open>inf\<close>) that
      no amount token has; here they are unparsable, as is everything else.\<close>
  "py_float s =
     (let (neg, body) = (case s of [] \<Rightarrow> (False, [])
                         | x # xs \<Rightarrow> if x = CHR ''-'' then (True, xs)
                                     else if x = CHR ''+'' then (False, xs)
                                     else (False, x # xs));
          ip = takeWhile py_isdigit body;
          rest = dropWhile py_isdigit body;
          (fp, ok) = (case rest of [] \<Rightarrow> ([], True)
                      | y # ys \<Rightarrow> if y = CHR ''.'' then (ys, list_all py_isdigit ys)
                                  else ([], False))
      in if ok \<and> (ip \<noteq> [] \<or> fp \<noteq> [])
         then let v = fl (of_int (int_of_digits (ip @ fp)) / 10 ^ length fp)
              in Some (if neg then - v else v)
         else None)"

function show_int :: "int \<Rightarrow> string" where
  \<comment> \<open>\<open>str(n)\<close> for \<open>0 \<le> n\<close>\<close>
  "show_int n =
     (if n < 10 then [char_of (48 + n)]
      else show_int (n div 10) @ [char_of (48 + n mod 10)])"
  by pat_completeness auto
termination
  by (relation "measure nat") auto

section \<open>Dates\<close>

text \<open>
  \<open>datetime.now()\<close> is an input of the model: a function that reads the clock takes
  its reading \<open>now\<close> as an argument, and the pipeline takes one reading for each of the
  functions it calls, since the clock may have moved on between two calls.
\<close>

record datetime =
  dt_year :: int
  dt_month :: int
  dt_day :: int
  dt_hour :: int
  dt_minute :: int
  dt_second :: int
  dt_microsecond :: int

definition is_leap :: "int \<Rightarrow> bool" where
  "is_leap y = (y mod 4 = 0 \<and> (y mod 100 \<noteq> 0 \<or> y mod 400 = 0))"

definition days_in_month :: "int \<Rightarrow> int \<Rightarrow> int" where
  "days_in_month y m =
     (if m = 2 then (if is_leap y then 29 else 28)
      else if m = 4 \<or> m = 6 \<or> m = 9 \<or> m = 11 then 30 else 31)"

definition mk_date :: "int \<Rightarrow> int \<Rightarrow> int \<Rightarrow> error + datetime" where
  \<comment> \<open>\<open>datetime(y, m, d)\<close>, which raises \<open>ValueError\<close> outside the calendar\<close>
  "mk_date y m d =
     (if 1 \<le> y \<and> y \<le> 9999 \<and> 1 \<le> m \<and> m \<le> 12 \<and> 1 \<le> d \<and> d \<le> days_in_month y m
      then Inr \<lparr>dt_year = y, dt_month = m, dt_day = d, dt_hour = 0, dt_minute = 0,
                dt_second = 0, dt_microsecond = 0\<rparr>
      else Inl ValueError)"

datatype directive = Pm | Pd | PY | Py | PLit char

fun directive_regex :: "directive \<Rightarrow> regex" where
  \<comment> \<open>the patterns \<open>datetime.strptime\<close> compiles \<open>%m\<close>, \<open>%d\<close>, \<open>%Y\<close> and \<open>%y\<close> to\<close>
  "directive_regex Pm =
     Grp 1 (ralt [Cat (Lit ''1'') (One (ASet [CRange CHR ''0'' CHR ''2''])),
                  Cat (Lit ''0'') (One (ASet [CRange CHR ''1'' CHR ''9''])),
                  One (ASet [CRange CHR ''1'' CHR ''9''])])"
| "directive_regex Pd =
     Grp 2 (ralt [Cat (Lit ''3'') (One (ASet [CRange CHR ''0'' CHR ''1''])),
                  Cat (One (ASet [CRange CHR ''1'' CHR ''2''])) (One (ASet [CDigit])),
                  Cat (Lit ''0'') (One (ASet [CRange CHR ''1'' CHR ''9''])),
                  One (ASet [CRange CHR ''1'' CHR ''9'']),
                  Cat (Lit '' '') (One (ASet [CRange CHR ''1'' CHR ''9'']))])"
| "directive_regex PY = Grp 3 (Rep (ASet [CDigit]) 4 (Some 4) True)"
| "directive_regex Py = Grp 4 (Rep (ASet [CDigit]) 2 (Some 2) True)"
| "directive_regex (PLit c) = Lit [c]"

definition py_int :: "string \<Rightarrow> int" where
  \<comment> \<open>\<open>int(s)\<close> for digits with blanks around them\<close>
  "py_int s = int_of_digits (strip s)"

definition strptime :: "string \<Rightarrow> directive list \<Rightarrow> error + datetime" where
  \<comment> \<open>the whole of \<open>data\<close> must match the format, and the fields must be a date of the
      calendar; a two-digit year up to 68 is in the 2000s, above that in the 1900s\<close>
  "strptime data fmt =
     (case mt True [R (rseq (map directive_regex fmt))] data [] of
        None \<Rightarrow> Inl ValueError
      | Some (rest, c) \<Rightarrow>
          if rest \<noteq> [] then Inl ValueError
          else
            let year = (case map_of c 3 of
                          Some t \<Rightarrow> py_int t
                        | None \<Rightarrow>
                            (case map_of c 4 of
                               Some t \<Rightarrow> (let y = py_int t in
                                            if y \<le> 68 then y + 2000 else y + 1900)
                             | None \<Rightarrow> 1900));
                month = (case map_of c 1 of Some t \<Rightarrow> py_int t | None \<Rightarrow> 1);
                day = (case map_of c 2 of Some t \<Rightarrow> py_int t | None \<Rightarrow> 1)
            in mk_date year month day)"

definition fmt_slash_Y :: "directive list" where
  \<comment> \<open>\<open>"%m/%d/%Y"\<close>\<close>
  "fmt_slash_Y = [Pm, PLit CHR ''/'', Pd, PLit CHR ''/'', PY]"

definition fmt_slash_y :: "directive list" where
  \<comment> \<open>\<open>"%m/%d/%y"\<close>\<close>
  "fmt_slash_y = [Pm, PLit CHR ''/'', Pd, PLit CHR ''/'', Py]"

definition fmt_dash_Y :: "directive list" where
  \<comment> \<open>\<open>"%m-%d-%Y"\<close>\<close>
  "fmt_dash_Y = [Pm, PLit CHR ''-'', Pd, PLit CHR ''-'', PY]"

definition fmt_dash_y :: "directive list" where
  \<comment> \<open>\<open>"%m-%d-%y"\<close>\<close>
  "fmt_dash_y = [Pm, PLit CHR ''-'', Pd, PLit CHR ''-'', Py]"

definition try_except :: "error + 'a \<Rightarrow> error + 'a \<Rightarrow> error + 'a" where
  \<comment> \<open>\<open>try: a except ValueError: b\<close>\<close>
  "try_except a b = (case a of Inr v \<Rightarrow> Inr v | Inl e \<Rightarrow> b)"

section \<open>The result types\<close>

record account_info =
  a_number :: string
  a_name :: "string option"
  a_institution :: "string option"
  a_type :: "string option"

record period =
  p_start :: datetime
  p_end :: datetime

record balance =
  b_closing :: rat
  b_opening :: "rat option"

record transaction =
  t_date :: datetime
  t_description :: string
  t_amount :: rat
  t_balance :: "rat option"
  t_category :: "string option"

record confidence =
  c_account_info :: rat
  c_period :: rat
  c_balance :: rat
  c_transactions :: rat
  c_overall :: rat

record statement_result =
  r_account_info :: account_info
  r_period :: period
  r_balance :: balance
  r_transactions :: "transaction list"
  r_confidence :: confidence

section \<open>The classifiers\<close>

definition institution_patterns :: "(string \<times> regex) list" where
  "institution_patterns =
   [(''chase'', Alt (Lit ''CHASE'') (Lit ''JPMorgan Chase'')),
    (''bofa'', Alt (rseq [Lit ''Bank'', ws1, Lit ''of'', ws1, Lit ''America'']) (Lit ''BOFA'')),
    (''wellsfargo'', rseq [Lit ''Wells'', ws1, Lit ''Fargo'']),
    (''citi'', rseq [Lit ''Citi'', opt (Lit ''bank'')]),
    (''amex'', Alt (rseq [Lit ''American'', ws1, Lit ''Express'']) (Lit ''AMEX'')),
    (''discover'', rseq [Lit ''Discover'', ws1, Lit ''Card'']),
    (''capitalone'', rseq [Lit ''Capital'', ws1, Lit ''One'']),
    (''usbank'', rseq [Lit ''U'', opt (Lit ''.''), Lit ''S'', opt (Lit ''.''), ws1, Lit ''Bank'']),
    (''pnc'', rseq [Lit ''PNC'', ws1, Lit ''Bank'']),
    (''tdbank'', rseq [Lit ''TD'', ws1, Lit ''Bank'']),
    (''regions'', rseq [Lit ''Regions'', ws1, Lit ''Bank'']),
    (''suntrust'', Alt (Lit ''SunTrust'') (Lit ''Truist'')),
    (''barclays'', Lit ''Barclays''),
    (''ally'', rseq [Lit ''Ally'', ws1, Lit ''Bank'']),
    (''schwab'', rseq [Lit ''Charles'', ws1, Lit ''Schwab'']),
    (''fidelity'', Lit ''Fidelity''),
    (''vanguard'', Lit ''Vanguard'')]"

fun first_match :: "(string \<times> regex) list \<Rightarrow> string \<Rightarrow> string option" where
  "first_match [] text = None"
| "first_match ((tag, pattern) # rest) text =
     (if matches True pattern text then Some tag else first_match rest text)"

definition detect_institution :: "string \<Rightarrow> string" where
  "detect_institution text =
     (case first_match institution_patterns text of Some i \<Rightarrow> i | None \<Rightarrow> ''unknown'')"


definition statement_type_patterns :: "(string \<times> regex) list" where
  "statement_type_patterns =
   [(''credit_card'',
       ralt [rseq [Lit ''credit'', ws1, Lit ''card''], rseq [Lit ''credit'', ws1, Lit ''account''],
             Lit ''APR'', rseq [Lit ''cash'', ws1, Lit ''advance'']]),
    (''bank'',
       ralt [Lit ''checking'', Lit ''savings'', rseq [Lit ''bank'', ws1, Lit ''statement''],
             Lit ''deposit'', Lit ''ATM'', Lit ''withdraw'']),
    (''investment'',
       lits [''investment'', ''portfolio'', ''securities'', ''brokerage'', ''fund'', ''stock'',
             ''bond''])]"

definition detect_statement_type :: "string \<Rightarrow> string" where
  "detect_statement_type text =
     (case first_match statement_type_patterns text of Some t \<Rightarrow> t | None \<Rightarrow> ''unknown'')"

section \<open>The field extractors\<close>

fun first_search :: "regex list \<Rightarrow> string \<Rightarrow> rmatch option" where
  \<comment> \<open>\<open>for pattern in patterns: match = re.search(pattern, text); if match: ... break\<close>\<close>
  "first_search [] text = None"
| "first_search (pattern # rest) text =
     (case re_search True pattern text of
        Some m \<Rightarrow> Some m
      | None \<Rightarrow> first_search rest text)"

definition d4 :: regex where
  \<comment> \<open>\<open>(\d{4})\<close>\<close>
  "d4 = Grp 1 (digits 4 4)"

definition mask_chars :: regex where
  \<comment> \<open>\<open>[*xX]+\<close>\<close>
  "mask_chars = rplus (ASet [CChar CHR ''*'', CChar CHR ''x'', CChar CHR ''X''])"

definition account_patterns :: "regex list" where
  "account_patterns =
   [rseq [Lit ''account'', ws1, opt (lits [''number'', ''#'', ''no'']),
          rplus (ASet [CChar CHR '':'', CChar CHR ''.'', CSpace]), mask_chars, d4],
    rseq [Lit ''account'', ws1, opt (lits [''ending'', ''#'']), ws1,
          opt (lits [''in'', ''with'']), ws1, d4],
    rseq [Lit ''acct'', ws1, mask_chars, d4]]"

definition holder :: regex where
  \<comment> \<open>\<open>([A-Z\s]+)\<close>\<close>
  "holder = Grp 1 (rplus (ASet [CRange CHR ''A'' CHR ''Z'', CSpace]))"

definition name_patterns :: "regex list" where
  "name_patterns =
   [rseq [Lit ''account'', ws1, Lit ''name'', opt (Lit '':''), ws1, holder],
    rseq [Lit ''primary'', ws1, Lit ''account'', ws1, Lit ''holder'', opt (Lit '':''), ws1,
          holder]]"

definition extract_account_info :: "string \<Rightarrow> string \<Rightarrow> string \<Rightarrow> account_info" where
  "extract_account_info text institution statement_type =
     (let (account_number, account_name) =
        (if statement_type = ''bank'' \<or> statement_type = ''credit_card''
         then ((case first_search account_patterns text of
                  Some m \<Rightarrow> ''xxxx-xxxx-xxxx-'' @ grp 1 m
                | None \<Rightarrow> ''Unknown''),
               (case first_search name_patterns text of
                  Some m \<Rightarrow> Some (strip (grp 1 m))
                | None \<Rightarrow> None))
         else (''Unknown'', None))
      in \<lparr>a_number = account_number, a_name = account_name,
          a_institution = Some institution, a_type = Some statement_type\<rparr>)"

definition date_pattern :: "nat \<Rightarrow> regex" where
  \<comment> \<open>\<open>(\d{1,2}/\d{1,2}/\d{2,4})\<close>, as group \<open>n\<close>\<close>
  "date_pattern n = Grp n (rseq [digits 1 2, Lit ''/'', digits 1 2, Lit ''/'', digits 2 4])"

definition period_patterns :: "regex list" where
  \<comment> \<open>Of the four characters in the class of the last pattern, the hyphen and \<open>0xE2\<close>
      are code points below 256; the other two (\<open>0x20AC\<close>, \<open>0x201C\<close>) match no
      character of a text of such code points.\<close>
  "period_patterns =
   [rseq [Lit ''statement'', ws1, Lit ''period'', opt (Lit '':''), ws1, date_pattern 1, ws1,
          lits [''to'', ''through''], ws1, date_pattern 2],
    rseq [Lit ''from'', ws1, date_pattern 1, ws1, Lit ''to'', ws1, date_pattern 2],
    rseq [Lit ''billing'', ws1, Lit ''period'', opt (Lit '':''), ws1, date_pattern 1, ws1,
          lits [''to'', ''through''], ws1, date_pattern 2],
    rseq [lits [''period'', ''cycle''], opt (rseq [ws1, Lit ''covered'']), opt (Lit '':''), ws1,
          date_pattern 1, Rep (ASet [CSpace]) 0 None True,
          One (ASet [CChar CHR ''-'', CChar (CHR 0xE2)]),
          Rep (ASet [CSpace]) 0 None True, date_pattern 2]]"

definition parse_period_date :: "datetime \<Rightarrow> string \<Rightarrow> datetime" where
  "parse_period_date now date_str =
     (case try_except (strptime date_str fmt_slash_Y) (strptime date_str fmt_slash_y) of
        Inr d \<Rightarrow> d
      | Inl e \<Rightarrow> now)"

definition first_of_month :: "datetime \<Rightarrow> datetime" where
  \<comment> \<open>\<open>datetime(today.year, today.month, 1)\<close>\<close>
  "first_of_month today =
     \<lparr>dt_year = dt_year today, dt_month = dt_month today, dt_day = 1, dt_hour = 0,
      dt_minute = 0, dt_second = 0, dt_microsecond = 0\<rparr>"

definition extract_period :: "datetime \<Rightarrow> string \<Rightarrow> string \<Rightarrow> string \<Rightarrow> period" where
  "extract_period now text institution statement_type =
     (case first_search period_patterns text of
        Some m \<Rightarrow> \<lparr>p_start = parse_period_date now (grp 1 m),
                   p_end = parse_period_date now (grp 2 m)\<rparr>
      | None \<Rightarrow> \<lparr>p_start = first_of_month now, p_end = now\<rparr>)"

definition amount_pattern :: regex where
  \<comment> \<open>\<open>([\$]?[\d,]+\.\d{2})\<close>\<close>
  "amount_pattern =
     Grp 1 (rseq [opt (One (ASet [CChar CHR ''$''])), rplus (ASet [CDigit, CChar CHR '','']),
                  Lit ''.'', digits 2 2])"

definition balance_phrase :: "string \<Rightarrow> string \<Rightarrow> regex" where
  \<comment> \<open>\<open>(?i)w1\s+w2:?\s+(amount)\<close>\<close>
  "balance_phrase w1 w2 = rseq [Lit w1, ws1, Lit w2, opt (Lit '':''), ws1, amount_pattern]"

definition closing_patterns :: "string \<Rightarrow> regex list" where
  "closing_patterns statement_type =
     [balance_phrase ''closing'' ''balance'', balance_phrase ''ending'' ''balance'',
      balance_phrase ''new'' ''balance'', balance_phrase ''balance'' ''forward'']
     @ (if statement_type = ''credit_card''
        then [balance_phrase ''new'' ''balance'', balance_phrase ''total'' ''balance'',
              balance_phrase ''statement'' ''balance'']
        else [])"

definition opening_patterns :: "regex list" where
  "opening_patterns =
     [balance_phrase ''opening'' ''balance'', balance_phrase ''previous'' ''balance'',
      balance_phrase ''beginning'' ''balance'',
      rseq [Lit ''balance'', ws1, lits [''from'', ''as of''], ws1, Lit ''last'', ws1,
            Lit ''statement'', opt (Lit '':''), ws1, amount_pattern]]"

definition clean_amount :: "string \<Rightarrow> string" where
  \<comment> \<open>\<open>amount_str.replace('$', '').replace(',', '')\<close>\<close>
  "clean_amount amount_str = replace_char CHR '','' (replace_char CHR ''$'' amount_str)"

definition to_float :: "string \<Rightarrow> error + rat" where
  \<comment> \<open>\<open>float(s)\<close>, raising \<open>ValueError\<close>\<close>
  "to_float s = (case py_float s of Some v \<Rightarrow> Inr v | None \<Rightarrow> Inl ValueError)"

definition extract_balance :: "string \<Rightarrow> string \<Rightarrow> string \<Rightarrow> error + balance" where
  "extract_balance text institution statement_type =
     (case (case first_search (closing_patterns statement_type) text of
              Some m \<Rightarrow> to_float (clean_amount (grp 1 m))
            | None \<Rightarrow> Inr 0) of
        Inl e \<Rightarrow> Inl e
      | Inr closing_balance \<Rightarrow>
          (case first_search opening_patterns text of
             Some m \<Rightarrow>
               (case to_float (clean_amount (grp 1 m)) of
                  Inl e \<Rightarrow> Inl e
                | Inr v \<Rightarrow> Inr \<lparr>b_closing = closing_balance, b_opening = Some v\<rparr>)
           | None \<Rightarrow> Inr \<lparr>b_closing = closing_balance, b_opening = None\<rparr>))"


section \<open>The categorizer\<close>

definition category_patterns :: "(string \<times> regex) list" where
  "category_patterns =
   [(''dining'', lits [''restaurant'', ''dining'', ''food'', ''cafe'', ''coffee'', ''starbucks'',
        ''mcdonalds'', ''chipotle'', ''pizza'', ''burger'', ''taco'', ''sushi'']),
    (''grocery'', lits [''grocery'', ''groceries'', ''supermarket'', ''market'', ''food'',
        ''whole foods'', ''trader'', ''safeway'', ''kroger'', ''albertsons'', ''wegmans'',
        ''publix'']),
    (''transportation'', lits [''uber'', ''lyft'', ''taxi'', ''cab'', ''transport'', ''transit'',
        ''metro'', ''subway'', ''train'', ''bus'', ''airline'', ''flight'', ''gas'', ''fuel'',
        ''chevron'', ''shell'', ''exxon'']),
    (''shopping'', lits [''amazon'', ''ebay'', ''walmart'', ''target'', ''costco'', ''shop'',
        ''store'', ''retail'', ''outlet'', ''mall'', ''clothing'', ''apparel'']),
    (''utilities'', lits [''utility'', ''utilities'', ''electric'', ''water'', ''gas'', ''power'',
        ''energy'', ''cable'', ''internet'', ''phone'', ''mobile'', ''wireless'', ''verizon'',
        ''at&t'', ''t-mobile'']),
    (''entertainment'', lits [''netflix'', ''hulu'', ''spotify'', ''apple'', ''google'', ''movie'',
        ''theater'', ''cinema'', ''concert'', ''ticket'', ''entertainment'']),
    (''health'', lits [''medical'', ''doctor'', ''pharmacy'', ''drug'', ''health'', ''healthcare'',
        ''hospital'', ''clinic'', ''dental'', ''vision'', ''insurance'']),
    (''personal'', lits [''salon'', ''spa'', ''beauty'', ''barber'', ''hair'', ''nail'', ''gym'',
        ''fitness'']),
    (''home'', lits [''home'', ''apartment'', ''rent'', ''lease'', ''mortgage'', ''furniture'',
        ''decor'', ''improvement'', ''repair'', ''maintenance'']),
    (''subscription'', lits [''subscription'', ''recurring'', ''monthly'', ''annual'',
        ''membership'', ''prime'', ''fee'']),
    (''income'', lits [''deposit'', ''direct deposit'', ''salary'', ''payroll'',
        ''payment received'', ''income'', ''revenue'']),
    (''transfer'', lits [''transfer'', ''zelle'', ''venmo'', ''paypal'', ''cash app'', ''wire'',
        ''ach'']),
    (''withdrawal'', lits [''withdrawal'', ''atm'', ''cash''])]"

definition categorize_transaction :: "string \<Rightarrow> string option" where
  "categorize_transaction description =
     (case first_match category_patterns description of
        Some category \<Rightarrow> Some category
      | None \<Rightarrow>
          if contains (lower description) ''deposit'' \<or> contains (lower description) ''credit''
          then Some ''income'' else None)"

section \<open>The transaction extractor\<close>

definition transaction_headers :: "regex list" where
  "transaction_headers =
   [rseq [Lit ''transaction'', opt (Lit ''s'')],
    rseq [Lit ''account'', ws1, Lit ''activity''],
    rseq [Lit ''payments'', ws1, Lit ''and'', ws1, opt (rseq [Lit ''other'', ws1]),
          Lit ''credits''],
    rseq [Lit ''purchases'', ws1, Lit ''and'', ws1, opt (rseq [Lit ''other'', ws1]),
          Lit ''charges'']]"

definition section_pattern :: "regex \<Rightarrow> regex" where
  \<comment> \<open>\<open>header.*?(?=SUMMARY|TOTAL|BALANCE|STATEMENT|INFORMATION|$)\<close>, compiled with
      \<open>re.DOTALL | re.IGNORECASE\<close>\<close>
  "section_pattern header =
     rseq [header, Rep AAny 0 None False,
           Look (ralt [Lit ''SUMMARY'', Lit ''TOTAL'', Lit ''BALANCE'', Lit ''STATEMENT'',
                       Lit ''INFORMATION'', Eos])]"

definition transaction_section :: "string \<Rightarrow> string" where
  "transaction_section text =
     (case first_search (map section_pattern transaction_headers) text of
        Some m \<Rightarrow> m_text m
      | None \<Rightarrow> text)"

definition desc_class :: "citem list" where
  \<comment> \<open>\<open>A-Za-z0-9\s.,&'"-\<close>\<close>
  "desc_class =
     [CRange CHR ''A'' CHR ''Z'', CRange CHR ''a'' CHR ''z'', CRange CHR ''0'' CHR ''9'', CSpace,
      CChar CHR ''.'', CChar CHR '','', CChar CHR ''&'', CChar (CHR 0x27), CChar (CHR 0x22),
      CChar CHR ''-'']"

definition signed_dollar_amount :: regex where
  \<comment> \<open>\<open>([-+]?\$[\d,]+\.\d{2})\<close>\<close>
  "signed_dollar_amount =
     Grp 3 (rseq [opt (One (ASet [CChar CHR ''-'', CChar CHR ''+''])), Lit ''$'',
                  rplus (ASet [CDigit, CChar CHR '','']), Lit ''.'', digits 2 2])"

definition chase_tx_pattern :: regex where
  "chase_tx_pattern =
     rseq [Grp 1 (rseq [digits 2 2, Lit ''/'', digits 2 2]), ws1,
           Grp 2 (Rep (ASet desc_class) 1 None False), ws1, signed_dollar_amount]"

definition full_date_tx_pattern :: regex where
  \<comment> \<open>the pattern of the Bank of America and of the American Express branch\<close>
  "full_date_tx_pattern =
     rseq [Grp 1 (rseq [digits 2 2, Lit ''/'', digits 2 2, Lit ''/'', digits 2 4]), ws1,
           Grp 2 (Rep (ASet desc_class) 1 None False), ws1, signed_dollar_amount]"

definition slash_date :: regex where
  \<comment> \<open>\<open>(\d{1,2}/\d{1,2}(?:/\d{2,4})?)\<close>\<close>
  "slash_date =
     Grp 1 (rseq [digits 1 2, Lit ''/'', digits 1 2, opt (rseq [Lit ''/'', digits 2 4])])"

definition dash_date :: regex where
  \<comment> \<open>\<open>(\d{1,2}-\d{1,2}(?:-\d{2,4})?)\<close>\<close>
  "dash_date =
     Grp 1 (rseq [digits 1 2, Lit ''-'', digits 1 2, opt (rseq [Lit ''-'', digits 2 4])])"

definition generic_date_patterns :: "regex list" where
  "generic_date_patterns = [slash_date, dash_date]"

definition generic_amount :: regex where
  \<comment> \<open>\<open>([-+]?\$?[\d,]+\.\d{2})\<close>\<close>
  "generic_amount =
     Grp 3 (rseq [opt (One (ASet [CChar CHR ''-'', CChar CHR ''+''])), opt (Lit ''$''),
                  rplus (ASet [CDigit, CChar CHR '','']), Lit ''.'', digits 2 2])"

definition combined_pattern :: "regex \<Rightarrow> regex" where
  "combined_pattern date_pat =
     rseq [date_pat, ws1,
           Grp 2 (Rep (ASet (desc_class @ [CChar CHR ''('', CChar CHR '')''])) 1 None False),
           ws1, generic_amount]"

fun collect :: "('a \<Rightarrow> error + 'b) \<Rightarrow> 'a list \<Rightarrow> error + 'b list" where
  \<comment> \<open>a loop that appends one result per element and stops at the first exception\<close>
  "collect f [] = Inr []"
| "collect f (x # xs) =
     (case f x of
        Inl e \<Rightarrow> Inl e
      | Inr y \<Rightarrow> (case collect f xs of Inl e \<Rightarrow> Inl e | Inr ys \<Rightarrow> Inr (y # ys)))"

definition plain_tx :: "datetime \<Rightarrow> string \<Rightarrow> rat \<Rightarrow> transaction" where
  "plain_tx date description amount =
     \<lparr>t_date = date, t_description = strip description, t_amount = amount,
      t_balance = None, t_category = None\<rparr>"

definition chase_tx :: "datetime \<Rightarrow> rmatch \<Rightarrow> error + transaction" where
  "chase_tx now m =
     (case strptime (grp 1 m @ ''/'' @ show_int (dt_year now)) fmt_slash_Y of
        Inl e \<Rightarrow> Inl e
      | Inr date \<Rightarrow>
          (case to_float (clean_amount (grp 3 m)) of
             Inl e \<Rightarrow> Inl e
           | Inr amount \<Rightarrow> Inr (plain_tx date (grp 2 m) amount)))"

definition bofa_tx :: "rmatch \<Rightarrow> error + transaction" where
  "bofa_tx m =
     (case try_except (strptime (grp 1 m) fmt_slash_Y) (strptime (grp 1 m) fmt_slash_y) of
        Inl e \<Rightarrow> Inl e
      | Inr date \<Rightarrow>
          (case to_float (clean_amount (grp 3 m)) of
             Inl e \<Rightarrow> Inl e
           | Inr amount \<Rightarrow> Inr (plain_tx date (grp 2 m) amount)))"

definition amex_amount :: "string \<Rightarrow> error + rat" where
  \<comment> \<open>\<open>-float(amount_str) if not amount_str.startswith('-') else float(amount_str)\<close>\<close>
  "amex_amount amount_str =
     (if \<not> startswith amount_str ''-''
      then (case to_float amount_str of Inl e \<Rightarrow> Inl e | Inr v \<Rightarrow> Inr (- v))
      else to_float amount_str)"

definition amex_tx :: "rmatch \<Rightarrow> error + transaction" where
  "amex_tx m =
     (case try_except (strptime (grp 1 m) fmt_slash_Y) (strptime (grp 1 m) fmt_slash_y) of
        Inl e \<Rightarrow> Inl e
      | Inr date \<Rightarrow>
          (case amex_amount (clean_amount (grp 3 m)) of
             Inl e \<Rightarrow> Inl e
           | Inr amount \<Rightarrow> Inr (plain_tx date (grp 2 m) amount)))"

definition split_len :: "char \<Rightarrow> string \<Rightarrow> nat" where
  \<comment> \<open>\<open>len(s.split(c))\<close>\<close>
  "split_len c s = Suc (length (filter (\<lambda>x. x = c) s))"

definition generic_date :: "datetime \<Rightarrow> string \<Rightarrow> error + datetime" where
  "generic_date now date_str =
     (if CHR ''/'' \<in> set date_str then
        (if 2 < split_len CHR ''/'' date_str
         then try_except (strptime date_str fmt_slash_Y) (strptime date_str fmt_slash_y)
         else strptime (date_str @ ''/'' @ show_int (dt_year now)) fmt_slash_Y)
      else
        (if 2 < split_len CHR ''-'' date_str
         then try_except (strptime date_str fmt_dash_Y) (strptime date_str fmt_dash_y)
         else strptime (date_str @ ''-'' @ show_int (dt_year now)) fmt_dash_Y))"

definition generic_tx :: "datetime \<Rightarrow> rmatch \<Rightarrow> transaction option" where
  \<comment> \<open>one pass of the generic loop body; \<open>None\<close> is the \<open>continue\<close>\<close>
  "generic_tx now m =
     (let date = (case generic_date now (grp 1 m) of Inr d \<Rightarrow> d | Inl e \<Rightarrow> now)
      in case py_float (clean_amount (grp 3 m)) of
           None \<Rightarrow> None
         | Some amount \<Rightarrow>
             Some \<lparr>t_date = date, t_description = strip (grp 2 m), t_amount = amount,
                   t_balance = None,
                   t_category = categorize_transaction (strip (grp 2 m))\<rparr>)"

definition generic_pass :: "datetime \<Rightarrow> string \<Rightarrow> regex \<Rightarrow> transaction list" where
  "generic_pass now sect date_pat =
     List.map_filter (generic_tx now) (finditer False (combined_pattern date_pat) sect)"

definition extract_transactions ::
  "datetime \<Rightarrow> string \<Rightarrow> string \<Rightarrow> string \<Rightarrow> error + transaction list" where
  "extract_transactions now text institution statement_type =
     (let sect = transaction_section text in
      if institution = ''chase'' \<and> statement_type = ''credit_card''
      then collect (chase_tx now) (finditer False chase_tx_pattern sect)
      else if institution = ''bofa'' \<and> statement_type = ''bank''
      then collect bofa_tx (finditer False full_date_tx_pattern sect)
      else if institution = ''amex'' \<and> statement_type = ''credit_card''
      then collect amex_tx (finditer False full_date_tx_pattern sect)
      else Inr (concat (map (generic_pass now sect) generic_date_patterns)))"

section \<open>The confidence scorer and the pipeline\<close>

definition calculate_confidence ::
  "datetime \<Rightarrow> account_info \<Rightarrow> period \<Rightarrow> balance \<Rightarrow> transaction list \<Rightarrow> confidence" where
  "calculate_confidence today account_info period balance transactions =
     (let c_acc = (if a_number account_info \<noteq> ''Unknown'' then fl (9 / 10) else fl (3 / 10));
          is_default_period = (dt_year (p_start period) = dt_year today \<and>
                               dt_month (p_start period) = dt_month today \<and>
                               dt_day (p_start period) = 1);
          c_per = (if is_default_period then fl (3 / 10) else fl (9 / 10));
          c_bal = (if b_opening balance \<noteq> None then fl (8 / 10) else fl (5 / 10));
          c_tx = (if 0 < length transactions
                  then py_min (fl (9 / 10))
                         (fl_add (fl (3 / 10))
                            (fl_mul (fl (of_nat (length transactions))) (fl (2 / 100))))
                  else fl (1 / 10))
      in \<lparr>c_account_info = c_acc, c_period = c_per, c_balance = c_bal, c_transactions = c_tx,
          c_overall = fl_div (fl_add (fl_add (fl_add c_acc c_per) c_bal) c_tx) 4\<rparr>)"

definition parse_text ::
  "datetime \<Rightarrow> datetime \<Rightarrow> datetime \<Rightarrow> string \<Rightarrow> error + statement_result" where
  \<comment> \<open>\<open>StatementParser.parse\<close> from the extracted text on. The period extractor, the
      transaction extractor and the confidence scorer each read the clock for themselves:
      \<open>now_period\<close>, \<open>now_transactions\<close> and \<open>now_confidence\<close> are their readings,
      taken in this order.\<close>
  "parse_text now_period now_transactions now_confidence text =
     (let institution = detect_institution text;
          statement_type = detect_statement_type text;
          account_info = extract_account_info text institution statement_type;
          period = extract_period now_period text institution statement_type
      in case extract_balance text institution statement_type of
           Inl e \<Rightarrow> Inl e
         | Inr balance \<Rightarrow>
             (case extract_transactions now_transactions text institution statement_type of
                Inl e \<Rightarrow> Inl e
              | Inr transactions \<Rightarrow>
                  Inr \<lparr>r_account_info = account_info, r_period = period, r_balance = balance,
                        r_transactions = transactions,
                        r_confidence = calculate_confidence now_confidence account_info period
                                         balance transactions\<rparr>))"

definition reference_transactions_score :: "nat \<Rightarrow> rat" where
  \<comment> \<open>the transactions score in the words of the specification: 0.1 for an empty list,
      else \<open>min(0.9, 0.3 + 0.02 \<times> count)\<close>, in the arithmetic of Python floats\<close>
  "reference_transactions_score count =
     (if count = 0 then fl (1 / 10)
      else py_min (fl (9 / 10)) (fl_add (fl (3 / 10)) (fl_mul (fl (2 / 100)) (fl (of_nat count)))))"

definition float_mean4 :: "rat \<Rightarrow> rat \<Rightarrow> rat \<Rightarrow> rat \<Rightarrow> rat" where
  \<comment> \<open>the arithmetic mean of four floats, summed from the left\<close>
  "float_mean4 a b c d = fl_div (fl_add (fl_add (fl_add a b) c) d) 4"

definition sample_now :: datetime where
  \<comment> \<open>a clock reading for the worked examples\<close>
  "sample_now = \<lparr>dt_year = 2026, dt_month = 11, dt_day = 3, dt_hour = 10, dt_minute = 20,
                  dt_second = 30, dt_microsecond = 5\<rparr>"

definition month_end_now :: datetime where
  \<comment> \<open>a reading in the last microsecond of a month\<close>
  "month_end_now = \<lparr>dt_year = 2026, dt_month = 11, dt_day = 30, dt_hour = 23, dt_minute = 59,
                     dt_second = 59, dt_microsecond = 999999\<rparr>"

definition next_month_now :: datetime where
  \<comment> \<open>a reading two microseconds after \<open>month_end_now\<close>\<close>
  "next_month_now = \<lparr>dt_year = 2026, dt_month = 12, dt_day = 1, dt_hour = 0, dt_minute = 0,
                      dt_second = 0, dt_microsecond = 1\<rparr>"

definition sample_account :: account_info where
  "sample_account = \<lparr>a_number = ''Unknown'', a_name = None, a_institution = Some ''unknown'',
                      a_type = Some ''unknown''\<rparr>"

definition sample_period :: period where
  "sample_period = \<lparr>p_start = first_of_month sample_now, p_end = sample_now\<rparr>"

definition sample_balance :: balance where
  "sample_balance = \<lparr>b_closing = 0, b_opening = None\<rparr>"

definition sample_tx :: transaction where
  "sample_tx = \<lparr>t_date = sample_now, t_description = ''COFFEE'', t_amount = - 5,
                 t_balance = None, t_category = Some ''dining''\<rparr>"

definition sentinel_text :: string where
  \<comment> \<open>what \<open>_extract_text\<close> returns when nothing could be read from the PDF\<close>
  "sentinel_text = ''ERROR: Unable to extract text from PDF''"

definition wholefds_text :: string where
  "wholefds_text = ''01/15 WHOLEFDS ABC 12345 -$50.00''"

definition amex_text :: string where
  "amex_text = ''American Express credit card 01/15/2024 COFFEE +$25.00 01/16/2024 TEA $3.00 01/17/24 REFUND -$1.50''"

definition amex_text_result :: "transaction list" where
  "amex_text_result =
     [\<lparr>t_date = \<lparr>dt_year = 2024, dt_month = 1, dt_day = 15, dt_hour = 0, dt_minute = 0,
                       dt_second = 0, dt_microsecond = 0\<rparr>,
           t_description = ''COFFEE'', t_amount = - 25, t_balance = None, t_category = None\<rparr>,
          \<lparr>t_date = \<lparr>dt_year = 2024, dt_month = 1, dt_day = 16, dt_hour = 0, dt_minute = 0,
                       dt_second = 0, dt_microsecond = 0\<rparr>,
           t_description = ''TEA'', t_amount = - 3, t_balance = None, t_category = None\<rparr>,
          \<lparr>t_date = \<lparr>dt_year = 2024, dt_month = 1, dt_day = 17, dt_hour = 0, dt_minute = 0,
                       dt_second = 0, dt_microsecond = 0\<rparr>,
           t_description = ''REFUND'', t_amount = - (3 / 2), t_balance = None,
           t_category = None\<rparr>]"




definition chase_bad_text :: string where
  "chase_bad_text = ''CHASE credit card 13/45 COFFEE $5.00''"

definition bofa_bad_text :: string where
  "bofa_bad_text = ''Bank of America checking 13/45/2023 COFFEE $5.00''"

definition amex_bad_text :: string where
  "amex_bad_text = ''American Express credit card 13/45/2023 COFFEE $5.00''"

definition generic_bad_text :: string where
  "generic_bad_text = ''13/45 COFFEE $5.00''"

definition new_balance_text :: string where
  "new_balance_text = ''New Balance: $100.00''"

definition four_digits :: "string \<Rightarrow> bool" where
  "four_digits t = (length t = 4 \<and> list_all py_isdigit t)"

fun ends_d4 :: "nat \<Rightarrow> regex \<Rightarrow> bool" where
  \<comment> \<open>the pattern ends in the group \<open>(\d{4})\<close> numbered \<open>n\<close>\<close>
  "ends_d4 n (Cat r1 r2) = ends_d4 n r2"
| "ends_d4 n (Grp n' r) = (n' = n \<and> r = Rep (ASet [CDigit]) 4 (Some 4) True)"
| "ends_d4 n r = False"

definition brokerage_text :: string where
  "brokerage_text = ''Brokerage Account Number: ****1234''"

definition checking_text :: string where
  "checking_text = ''Checking Account Number: ****1234''"

section \<open>Properties of the matcher\<close>

declare mt.simps(7) [simp del]



declare finditer_from.simps [simp del]





lemma first_match_None:
  "first_match tbl text = None \<longleftrightarrow> (\<forall>k < length tbl. \<not> matches True (snd (tbl ! k)) text)"
proof (induction tbl)
  case Nil
  then show ?case by simp
next
  case (Cons a tbl)
  obtain t p where a: "a = (t, p)" by (cases a)
  show ?case
    by (auto simp: a Cons.IH less_Suc_eq_0_disj)
qed

lemma first_match_first:
  assumes "k < length tbl" and "matches True (snd (tbl ! k)) text"
    and "\<forall>j < k. \<not> matches True (snd (tbl ! j)) text"
  shows "first_match tbl text = Some (fst (tbl ! k))"
  using assms
proof (induction tbl arbitrary: k)
  case Nil
  then show ?case by simp
next
  case (Cons a tbl)
  obtain t p where a: "a = (t, p)" by (cases a)
  show ?case
  proof (cases k)
    case 0
    with Cons.prems a show ?thesis by simp
  next
    case (Suc k')
    from Cons.prems(3) Suc have "\<not> matches True (snd ((a # tbl) ! 0)) text" by blast
    then have nm: "\<not> matches True p text" by (simp add: a)
    have "first_match tbl text = Some (fst (tbl ! k'))"
    proof (rule Cons.IH)
      show "k' < length tbl" using Cons.prems(1) Suc by simp
      show "matches True (snd (tbl ! k')) text" using Cons.prems(2) Suc by simp
      show "\<forall>j<k'. \<not> matches True (snd (tbl ! j)) text"
      proof (intro allI impI)
        fix j assume "j < k'"
        then have "Suc j < k" using Suc by simp
        with Cons.prems(3) have "\<not> matches True (snd ((a # tbl) ! Suc j)) text" by blast
        then show "\<not> matches True (snd (tbl ! j)) text" by simp
      qed
    qed
    with nm Suc a show ?thesis by simp
  qed
qed

lemma first_search_None:
  "first_search ps text = None \<longleftrightarrow> (\<forall>k < length ps. re_search True (ps ! k) text = None)"
proof (induction ps)
  case Nil
  then show ?case by simp
next
  case (Cons p ps)
  show ?case
    by (auto simp: Cons.IH less_Suc_eq_0_disj split: option.splits)
qed

lemma first_search_first:
  assumes "k < length ps" and "re_search True (ps ! k) text = Some m"
    and "\<forall>j < k. re_search True (ps ! j) text = None"
  shows "first_search ps text = Some m"
  using assms
proof (induction ps arbitrary: k)
  case Nil
  then show ?case by simp
next
  case (Cons p ps)
  show ?case
  proof (cases k)
    case 0
    with Cons.prems show ?thesis by simp
  next
    case (Suc k')
    from Cons.prems(3) Suc have "re_search True ((p # ps) ! 0) text = None" by blast
    then have nm: "re_search True p text = None" by simp
    have "first_search ps text = Some m"
    proof (rule Cons.IH)
      show "k' < length ps" using Cons.prems(1) Suc by simp
      show "re_search True (ps ! k') text = Some m" using Cons.prems(2) Suc by simp
      show "\<forall>j<k'. re_search True (ps ! j) text = None"
      proof (intro allI impI)
        fix j assume "j < k'"
        then have "Suc j < k" using Suc by simp
        with Cons.prems(3) have "re_search True ((p # ps) ! Suc j) text = None" by blast
        then show "re_search True (ps ! j) text = None" by simp
      qed
    qed
    with nm show ?thesis by simp
  qed
qed


section \<open>Properties of the rounding\<close>

lemma pow2_powi: "pow2 k = 2 powi k"
  by (simp add: pow2_def power_int_def inverse_eq_divide power_one_over)

lemma pow2_pos: "0 < pow2 k"
  by (simp add: pow2_powi)

lemma pow2_add: "pow2 (a + b) = pow2 a * pow2 b"
  by (simp add: pow2_powi power_int_add)

lemma pow2_mono: "a \<le> b \<Longrightarrow> pow2 a \<le> pow2 b"
  by (simp add: pow2_powi power_int_increasing)

lemma pow2_nat: "pow2 (int n) = 2 ^ n"
  by (simp add: pow2_def)

lemma ilog2_le:
  assumes "0 < x"
  shows "pow2 (ilog2 x) \<le> x"
proof -
  obtain p q where pq: "quotient_of x = (p, q)" by (cases "quotient_of x")
  have q: "0 < q" using pq by (rule quotient_of_denom_pos)
  have x: "x = of_int p / of_int q" using pq by (rule quotient_of_div)
  have p: "0 < p"
  proof (rule ccontr)
    assume "\<not> 0 < p"
    then have "of_int p / (of_int q :: rat) \<le> 0" using q by (simp add: divide_nonpos_pos)
    with x assms show False by simp
  qed
  define d where "d = bitlen p - bitlen q"
  show ?thesis
  proof (cases "pow2 d \<le> x")
    case True
    then show ?thesis by (simp add: ilog2_def pq d_def Let_def)
  next
    case False
    have bp: "2 ^ nat (bitlen p - 1) \<le> p" using bitlen_bounds [OF p] by simp
    have bq: "q < 2 ^ nat (bitlen q)" using bitlen_bounds [OF q] by simp
    have bp1: "1 \<le> bitlen p" using p by (simp add: bitlen_alt_def)
    have bq0: "0 \<le> bitlen q" by (rule bitlen_nonneg)
    have lp: "pow2 (bitlen p - 1) \<le> of_int p"
    proof -
      have "pow2 (bitlen p - 1) = pow2 (int (nat (bitlen p - 1)))" using bp1 by simp
      also have "\<dots> = 2 ^ nat (bitlen p - 1)" by (rule pow2_nat)
      also have "\<dots> = of_int (2 ^ nat (bitlen p - 1))" by simp
      also have "\<dots> \<le> of_int p" using bp by (simp only: of_int_le_iff)
      finally show ?thesis .
    qed
    have lq: "of_int q \<le> pow2 (bitlen q)"
    proof -
      have "(of_int q :: rat) \<le> of_int (2 ^ nat (bitlen q))" using bq by (simp only: of_int_le_iff)
      also have "\<dots> = 2 ^ nat (bitlen q)" by simp
      also have "\<dots> = pow2 (int (nat (bitlen q)))" by (rule pow2_nat [symmetric])
      also have "\<dots> = pow2 (bitlen q)" using bq0 by simp
      finally show ?thesis .
    qed
    have "pow2 (d - 1) * of_int q \<le> pow2 (d - 1) * pow2 (bitlen q)"
      using lq pow2_pos [of "d - 1"] by (simp add: mult_left_mono)
    also have "\<dots> = pow2 (bitlen p - 1)"
      by (simp add: pow2_add [symmetric] d_def)
    also have "\<dots> \<le> of_int p" by (rule lp)
    finally have "pow2 (d - 1) \<le> of_int p / of_int q"
      using q by (simp add: pos_le_divide_eq)
    then have "pow2 (d - 1) \<le> x" by (simp only: x)
    moreover have "ilog2 x = d - 1" using False by (simp add: ilog2_def pq d_def Let_def)
    ultimately show ?thesis by simp
  qed
qed

lemma rne_ge_floor: "\<lfloor>x\<rfloor> \<le> rne x"
  by (simp add: rne_def Let_def)

lemma fl_ge:
  assumes m: "0 \<le> m" "m < 2 ^ 53" and le: "of_int m * pow2 k \<le> x"
  shows "of_int m * pow2 k \<le> fl x"
proof (cases "x = 0")
  case True
  with le show ?thesis by (simp add: fl_def)
next
  case False
  have mk: "0 \<le> of_int m * pow2 k" using m(1) pow2_pos [of k] by simp
  with le False have xpos: "0 < x" by simp
  define e where "e = ilog2 x"
  define q where "q = pow2 (e - 52)"
  have qpos: "0 < q" by (simp add: q_def pow2_pos)
  have flx: "fl x = of_int (rne (x / q)) * q"
    using False xpos by (simp add: fl_def q_def e_def Let_def)
  have ex: "pow2 e \<le> x" unfolding e_def using xpos by (rule ilog2_le)
  have fl_floor: "of_int \<lfloor>x / q\<rfloor> * q \<le> fl x"
    unfolding flx using rne_ge_floor [of "x / q"] qpos by (simp add: mult_right_mono)
  show ?thesis
  proof (cases "e - 52 \<le> k")
    case True
    define N where "N = m * 2 ^ nat (k - (e - 52))"
    have "pow2 k = pow2 (int (nat (k - (e - 52)))) * q"
      using True by (simp add: q_def pow2_add [symmetric])
    then have pk: "pow2 k = 2 ^ nat (k - (e - 52)) * q" by (simp only: pow2_nat)
    have Nq: "of_int N * q = of_int m * pow2 k" by (simp add: N_def pk)
    have "of_int N \<le> x / q" using le qpos by (simp add: Nq [symmetric] pos_le_divide_eq)
    then have "N \<le> \<lfloor>x / q\<rfloor>" by (simp add: le_floor_iff)
    then have "(of_int N :: rat) \<le> of_int \<lfloor>x / q\<rfloor>" by (simp only: of_int_le_iff)
    then have "of_int N * q \<le> of_int \<lfloor>x / q\<rfloor> * q" using qpos by (simp add: mult_right_mono)
    with fl_floor Nq show ?thesis by simp
  next
    case False
    then have k: "k + 53 \<le> e" by simp
    have pe: "pow2 e = 2 ^ 52 * q"
    proof -
      have "pow2 e = pow2 (int 52 + (e - 52))" by simp
      also have "\<dots> = pow2 (int 52) * q" unfolding q_def by (rule pow2_add)
      finally show ?thesis by (simp only: pow2_nat)
    qed
    have "(2 :: rat) ^ 52 \<le> x / q" using ex qpos by (simp add: pe pos_le_divide_eq)
    then have "(of_int (2 ^ 52) :: rat) \<le> x / q" by simp
    then have "(2 ^ 52 :: int) \<le> \<lfloor>x / q\<rfloor>" by (simp only: le_floor_iff)
    then have "(of_int (2 ^ 52) :: rat) \<le> of_int \<lfloor>x / q\<rfloor>" by (simp only: of_int_le_iff)
    then have "of_int (2 ^ 52) * q \<le> of_int \<lfloor>x / q\<rfloor> * q" using qpos by (simp add: mult_right_mono)
    then have "pow2 e \<le> fl x" using fl_floor by (simp add: pe)
    moreover have "of_int m * pow2 k \<le> pow2 e"
    proof -
      have p53: "pow2 53 = (2 :: rat) ^ 53" by (simp add: pow2_def)
      have "(of_int m :: rat) \<le> of_int (2 ^ 53)" using m(2) by (simp only: of_int_le_iff)
      then have "(of_int m :: rat) \<le> 2 ^ 53" by simp
      then have "of_int m * pow2 k \<le> 2 ^ 53 * pow2 k"
        using pow2_pos [of k] by (simp only: mult_right_mono less_imp_le)
      also have "\<dots> = pow2 53 * pow2 k" by (simp only: p53)
      also have "\<dots> = pow2 (53 + k)" by (simp only: pow2_add)
      also have "\<dots> \<le> pow2 e" using k by (intro pow2_mono) simp
      finally show ?thesis .
    qed
    ultimately show ?thesis by simp
  qed
qed

lemma fl_ge_one: "1 \<le> x \<Longrightarrow> 1 \<le> fl x"
  using fl_ge [of 1 0 x] by (simp add: pow2_def)

lemma fl_ge_50: "50 \<le> x \<Longrightarrow> 50 \<le> fl x"
  using fl_ge [of 50 0 x] by (simp add: pow2_def)



lemma fl_consts:
  "fl (2 / 100) = 5764607523034235 / 288230376151711744"
  "fl (3 / 10) = 5404319552844595 / 18014398509481984"
  "fl (9 / 10) = 8106479329266893 / 9007199254740992"
  by code_simp+

lemma tx_score_5:
  "py_min (fl (9 / 10)) (fl_add (fl (3 / 10)) (fl_mul (fl (of_nat 5)) (fl (2 / 100)))) =
     fl (4 / 10)"
  by code_simp

lemma tx_score_cap:
  assumes "50 \<le> n"
  shows "py_min (fl (9 / 10)) (fl_add (fl (3 / 10)) (fl_mul (fl (of_nat n)) (fl (2 / 100)))) =
           fl (9 / 10)"
proof -
  have "(50 :: rat) \<le> of_nat n" using assms by simp
  then have a: "50 \<le> fl (of_nat n)" by (rule fl_ge_50)
  have "1 \<le> 50 * fl (2 / 100)" unfolding fl_consts by simp
  also have "\<dots> \<le> fl (of_nat n) * fl (2 / 100)"
    using a unfolding fl_consts by (intro mult_right_mono) simp_all
  finally have "1 \<le> fl_mul (fl (of_nat n)) (fl (2 / 100))"
    unfolding fl_mul_def by (rule fl_ge_one)
  then have "1 \<le> fl (3 / 10) + fl_mul (fl (of_nat n)) (fl (2 / 100))"
    unfolding fl_consts(2) by simp
  then have "1 \<le> fl_add (fl (3 / 10)) (fl_mul (fl (of_nat n)) (fl (2 / 100)))"
    unfolding fl_add_def by (rule fl_ge_one)
  moreover have "fl (9 / 10) < 1" unfolding fl_consts by simp
  ultimately show ?thesis by (simp add: py_min_def)
qed

lemma c_transactions_eq:
  "c_transactions (calculate_confidence today a p b txs) =
     (if 0 < length txs
      then py_min (fl (9 / 10))
             (fl_add (fl (3 / 10)) (fl_mul (fl (of_nat (length txs))) (fl (2 / 100))))
      else fl (1 / 10))"
  by (simp only: calculate_confidence_def Let_def confidence.simps)

section \<open>Properties of the date parser\<close>

declare show_int.simps [simp del]

lemma yh:
  assumes "1000 \<le> (y::int)" "y \<le> 9999"
  shows "\<not> y < 10" "\<not> y div 10 < 10" "\<not> y div 100 < 10" "y div 1000 < 10"
  using assms by linarith+

lemma show_int_4:
  assumes "1000 \<le> y" "y \<le> 9999"
  shows "show_int y = [char_of (48 + y div 1000), char_of (48 + y div 100 mod 10),
                       char_of (48 + y div 10 mod 10), char_of (48 + y mod 10)]"
proof -
  note h = yh [OF assms]
  have e: "y div 10 div 10 = y div 100" "y div 100 div 10 = y div 1000"
    by (simp_all add: zdiv_zmult2_eq [symmetric])
  have a: "show_int y = show_int (y div 10) @ [char_of (48 + y mod 10)]"
    using h(1) by (simp add: show_int.simps [of y])
  have b: "show_int (y div 10) = show_int (y div 100) @ [char_of (48 + y div 10 mod 10)]"
    using h(2) by (simp add: show_int.simps [of "y div 10"] e)
  have c: "show_int (y div 100) = show_int (y div 1000) @ [char_of (48 + y div 100 mod 10)]"
    using h(3) by (simp add: show_int.simps [of "y div 100"] e)
  have d: "show_int (y div 1000) = [char_of (48 + y div 1000)]"
    using h(4) by (simp add: show_int.simps [of "y div 1000"])
  show ?thesis by (simp add: a b c d)
qed

lemma digit_char:
  assumes "0 \<le> (d :: int)" "d \<le> 9"
  shows "code (char_of (48 + d)) = 48 + d"
  using assms by (simp add: code_def)

lemma digit_char_props:
  assumes "0 \<le> (d :: int)" "d \<le> 9"
  shows "py_isdigit (char_of (48 + d))" "\<not> py_isspace (char_of (48 + d))"
    "py_lower (char_of (48 + d)) = char_of (48 + d)"
    "py_upper (char_of (48 + d)) = char_of (48 + d)"
    "digit_val (char_of (48 + d)) = d"
  using assms 
  by (simp_all add: py_isdigit_def py_isspace_def py_lower_def py_upper_def digit_val_def Let_def digit_char [OF assms])

lemma digit_char_not_slash:
  assumes "0 \<le> (d :: int)" "d \<le> 9"
  shows "char_of (48 + d) \<noteq> CHR ''/''"
proof
  assume "char_of (48 + d) = CHR ''/''"
  then have "code (char_of (48 + d)) = code CHR ''/''" by simp
  with digit_char [OF assms] assms show False by (simp add: code_def)
qed

lemma year_digits:
  assumes "1000 \<le> (y::int)" "y \<le> 9999"
  shows "0 \<le> y div 1000" "y div 1000 \<le> 9" "0 \<le> y div 100 mod 10" "y div 100 mod 10 \<le> 9"
    "0 \<le> y div 10 mod 10" "y div 10 mod 10 \<le> 9" "0 \<le> y mod 10" "y mod 10 \<le> 9"
  using assms by linarith+

lemma year_value:
  "((y div 1000 * 10 + y div 100 mod 10) * 10 + y div 10 mod 10) * 10 + y mod 10 = (y::int)"
proof -
  have a: "y = y div 10 * 10 + y mod 10" by simp
  have b: "y div 10 = y div 100 * 10 + y div 10 mod 10"
    using div_mult_mod_eq [of "y div 10" 10] by (simp add: zdiv_zmult2_eq [symmetric])
  have c: "y div 100 = y div 1000 * 10 + y div 100 mod 10"
    using div_mult_mod_eq [of "y div 100" 10] by (simp add: zdiv_zmult2_eq [symmetric])
  have "((y div 1000 * 10 + y div 100 mod 10) * 10 + y div 10 mod 10) * 10 + y mod 10
      = (y div 100 * 10 + y div 10 mod 10) * 10 + y mod 10" by (simp only: c [symmetric])
  also have "\<dots> = y div 10 * 10 + y mod 10" by (simp only: b [symmetric])
  also have "\<dots> = y" by simp
  finally show ?thesis .
qed

lemma chars_eval:
  "py_lower CHR ''0'' = CHR ''0''" "py_lower CHR ''1'' = CHR ''1''" "py_lower CHR ''5'' = CHR ''5''"
  "py_lower CHR ''/'' = CHR ''/''" "py_lower CHR ''3'' = CHR ''3''" "py_lower CHR '' '' = CHR '' ''"
  "py_upper CHR ''0'' = CHR ''0''" "py_upper CHR ''1'' = CHR ''1''" "py_upper CHR ''5'' = CHR ''5''"
  "py_isdigit CHR ''5''" "py_isdigit CHR ''1''"
  "code CHR ''0'' = 48" "code CHR ''1'' = 49" "code CHR ''2'' = 50" "code CHR ''5'' = 53" "code CHR ''9'' = 57"
  by code_simp+

lemma m_test:
  fixes d3 d2 d1 d0 :: int
  assumes r: "0 \<le> d3" "d3 \<le> 9" "0 \<le> d2" "d2 \<le> 9" "0 \<le> d1" "d1 \<le> 9" "0 \<le> d0" "d0 \<le> 9"
  shows "mt True [R (rseq (map directive_regex fmt_slash_Y))]
           (''01/15'' @ ''/'' @ [char_of (48 + d3), char_of (48 + d2), char_of (48 + d1), char_of (48 + d0)]) []
        = Some ([], [(3, [char_of (48 + d3), char_of (48 + d2), char_of (48 + d1), char_of (48 + d0)]),
                     (2, ''15''), (1, ''01'')])"
proof -
  note dp = digit_char_props [OF r(1,2)] digit_char_props [OF r(3,4)]
    digit_char_props [OF r(5,6)] digit_char_props [OF r(7,8)]
  show ?thesis
    apply (simp add: fmt_slash_Y_def mt.simps(7) dec_hi_def in_set_def dp chars_eval)
    done
qed


lemma strptime_jan15:
  assumes "1000 \<le> y" "y \<le> 9999"
  shows "strptime (''01/15'' @ ''/'' @ show_int y) fmt_slash_Y =
           Inr \<lparr>dt_year = y, dt_month = 1, dt_day = 15, dt_hour = 0, dt_minute = 0,
                dt_second = 0, dt_microsecond = 0\<rparr>"
proof -
  define d3 where "d3 = y div 1000"
  define d2 where "d2 = y div 100 mod 10"
  define d1 where "d1 = y div 10 mod 10"
  define d0 where "d0 = y mod 10"
  have r: "0 \<le> d3" "d3 \<le> 9" "0 \<le> d2" "d2 \<le> 9" "0 \<le> d1" "d1 \<le> 9" "0 \<le> d0" "d0 \<le> 9"
    unfolding d3_def d2_def d1_def d0_def using assms by (rule year_digits)+
  have y: "((d3 * 10 + d2) * 10 + d1) * 10 + d0 = y"
    unfolding d3_def d2_def d1_def d0_def by (rule year_value)
  have s: "show_int y = [char_of (48 + d3), char_of (48 + d2), char_of (48 + d1), char_of (48 + d0)]"
    unfolding d3_def d2_def d1_def d0_def using assms by (rule show_int_4)
  note dp = digit_char_props [OF r(1,2)] digit_char_props [OF r(3,4)]
    digit_char_props [OF r(5,6)] digit_char_props [OF r(7,8)]
  have m: "mt True [R (rseq (map directive_regex fmt_slash_Y))] (''01/15'' @ ''/'' @ show_int y) []
        = Some ([], [(3, [char_of (48 + d3), char_of (48 + d2), char_of (48 + d1), char_of (48 + d0)]),
                     (2, ''15''), (1, ''01'')])"
    unfolding s by (rule m_test [OF r])
  have pi: "py_int [char_of (48 + d3), char_of (48 + d2), char_of (48 + d1), char_of (48 + d0)] = y"
    using y by (simp add: py_int_def strip_def int_of_digits_def dp)
  have pm: "py_int ''01'' = 1" "py_int ''15'' = 15" by code_simp+
  have v: "mk_date y 1 15 = Inr \<lparr>dt_year = y, dt_month = 1, dt_day = 15, dt_hour = 0, dt_minute = 0,
                dt_second = 0, dt_microsecond = 0\<rparr>"
    using assms by (simp add: mk_date_def days_in_month_def)
  show ?thesis
    unfolding strptime_def m by (simp add: pi pm v Let_def)
qed

section \<open>The pipeline on the worked texts\<close>

lemma first_search_no_match:
  assumes "\<forall>p \<in> set ps. \<not> matches True p text"
  shows "first_search ps text = None"
  using assms by (induction ps) (auto simp: matches_def)

lemma sentinel_institution: "detect_institution sentinel_text = ''unknown''"
  by code_simp

lemma sentinel_type: "detect_statement_type sentinel_text = ''unknown''"
  by code_simp

lemma sentinel_period: "list_all (\<lambda>p. \<not> matches True p sentinel_text) period_patterns"
  by code_simp

lemma sentinel_balance:
  "extract_balance sentinel_text ''unknown'' ''unknown'' = Inr \<lparr>b_closing = 0, b_opening = None\<rparr>"
  by code_simp

lemma sentinel_section: "transaction_section sentinel_text = sentinel_text"
  by code_simp

lemma sentinel_slash: "finditer False (combined_pattern slash_date) sentinel_text = []"
  by code_simp

lemma sentinel_dash: "finditer False (combined_pattern dash_date) sentinel_text = []"
  by code_simp

lemma sentinel_transactions:
  "extract_transactions now sentinel_text ''unknown'' ''unknown'' = Inr []"
  by (simp add: extract_transactions_def sentinel_section generic_date_patterns_def
      generic_pass_def sentinel_slash sentinel_dash List.map_filter_simps)

lemma sentinel_period_default:
  "extract_period now sentinel_text i t = \<lparr>p_start = first_of_month now, p_end = now\<rparr>"
proof -
  have "\<forall>p \<in> set period_patterns. \<not> matches True p sentinel_text"
    using sentinel_period by (simp only: list_all_iff)
  then have "first_search period_patterns sentinel_text = None"
    by (rule first_search_no_match)
  then show ?thesis by (simp add: extract_period_def)
qed

lemma c_period_eq:
  "c_period (calculate_confidence today a p b txs) =
     (if dt_year (p_start p) = dt_year today \<and> dt_month (p_start p) = dt_month today \<and>
         dt_day (p_start p) = 1
      then fl (3 / 10) else fl (9 / 10))"
  by (simp only: calculate_confidence_def Let_def confidence.simps)

lemma wholefds_institution: "detect_institution wholefds_text = ''unknown''"
  by code_simp

lemma wholefds_type: "detect_statement_type wholefds_text = ''unknown''"
  by code_simp

lemma wholefds_balance:
  "extract_balance wholefds_text ''unknown'' ''unknown'' = Inr \<lparr>b_closing = 0, b_opening = None\<rparr>"
  by code_simp

lemma wholefds_section: "transaction_section wholefds_text = wholefds_text"
  by code_simp

lemma wholefds_slash:
  "finditer False (combined_pattern slash_date) wholefds_text =
     [\<lparr>m_start = 0, m_end = 32, m_text = ''01/15 WHOLEFDS ABC 12345 -$50.00'',
       m_groups = [(3, ''-$50.00''), (2, ''WHOLEFDS ABC 12345''), (1, ''01/15'')],
       m_rest = []\<rparr>]"
  by code_simp

lemma wholefds_dash: "finditer False (combined_pattern dash_date) wholefds_text = []"
  by code_simp

lemma wholefds_category: "categorize_transaction ''WHOLEFDS ABC 12345'' = None"
  by code_simp

lemma wholefds_strip: "strip ''WHOLEFDS ABC 12345'' = ''WHOLEFDS ABC 12345''"
  by code_simp

lemma wholefds_amount: "py_float (clean_amount ''-$50.00'') = Some (- 50)"
  by code_simp

lemma wholefds_date:
  assumes "1000 \<le> dt_year now" "dt_year now \<le> 9999"
  shows "generic_date now ''01/15'' =
           Inr \<lparr>dt_year = dt_year now, dt_month = 1, dt_day = 15, dt_hour = 0, dt_minute = 0,
                dt_second = 0, dt_microsecond = 0\<rparr>"
proof -
  have "generic_date now ''01/15'' = strptime (''01/15'' @ ''/'' @ show_int (dt_year now)) fmt_slash_Y"
    by (simp add: generic_date_def split_len_def)
  with strptime_jan15 [OF assms] show ?thesis by simp
qed

lemma wholefds_transactions:
  assumes "1000 \<le> dt_year now" "dt_year now \<le> 9999"
  shows "extract_transactions now wholefds_text ''unknown'' ''unknown'' =
     Inr [\<lparr>t_date = \<lparr>dt_year = dt_year now, dt_month = 1, dt_day = 15, dt_hour = 0,
                       dt_minute = 0, dt_second = 0, dt_microsecond = 0\<rparr>,
           t_description = ''WHOLEFDS ABC 12345'', t_amount = - 50, t_balance = None,
           t_category = None\<rparr>]"
  by (simp add: extract_transactions_def wholefds_section generic_date_patterns_def
      generic_pass_def wholefds_slash wholefds_dash List.map_filter_simps generic_tx_def grp_def
      wholefds_date [OF assms] wholefds_amount wholefds_category wholefds_strip)

lemma sample_now_year: "dt_year sample_now = 2026"
  by (simp add: sample_now_def)

lemma collect_Inr:
  "collect f xs = Inr ys \<Longrightarrow>
     length ys = length xs \<and> (\<forall>i < length xs. f (xs ! i) = Inr (ys ! i))"
proof (induction xs arbitrary: ys)
  case Nil
  then show ?case by simp
next
  case (Cons x xs)
  from Cons.prems obtain y ys' where fx: "f x = Inr y" and c: "collect f xs = Inr ys'"
    and ys: "ys = y # ys'"
    by (auto split: sum.splits)
  from Cons.IH [OF c] have l: "length ys' = length xs"
    and a: "\<forall>i < length xs. f (xs ! i) = Inr (ys' ! i)" by simp_all
  show ?case
  proof (intro conjI allI impI)
    show "length ys = length (x # xs)" using l ys by simp
  next
    fix i assume "i < length (x # xs)"
    then show "f ((x # xs) ! i) = Inr (ys ! i)"
      using fx a ys by (cases i) simp_all
  qed
qed

lemma amex_tx_amount:
  assumes "amex_tx m = Inr tx"
  shows "amex_amount (clean_amount (grp 3 m)) = Inr (t_amount tx)"
  using assms by (auto simp: amex_tx_def plain_tx_def split: sum.splits)

lemma amex_amount_Inr:
  assumes "amex_amount tok = Inr a"
  shows "\<exists>v. py_float tok = Some v \<and> a = (if startswith tok ''-'' then v else - v)"
  using assms by (auto simp: amex_amount_def to_float_def split: if_splits option.splits sum.splits)

lemma amex_text_institution: "detect_institution amex_text = ''amex''"
  by code_simp

lemma amex_text_type: "detect_statement_type amex_text = ''credit_card''"
  by code_simp

lemma amex_text_transactions:
  "extract_transactions now amex_text ''amex'' ''credit_card'' =
     Inr [\<lparr>t_date = \<lparr>dt_year = 2024, dt_month = 1, dt_day = 15, dt_hour = 0, dt_minute = 0,
                       dt_second = 0, dt_microsecond = 0\<rparr>,
           t_description = ''COFFEE'', t_amount = - 25, t_balance = None, t_category = None\<rparr>,
          \<lparr>t_date = \<lparr>dt_year = 2024, dt_month = 1, dt_day = 16, dt_hour = 0, dt_minute = 0,
                       dt_second = 0, dt_microsecond = 0\<rparr>,
           t_description = ''TEA'', t_amount = - 3, t_balance = None, t_category = None\<rparr>,
          \<lparr>t_date = \<lparr>dt_year = 2024, dt_month = 1, dt_day = 17, dt_hour = 0, dt_minute = 0,
                       dt_second = 0, dt_microsecond = 0\<rparr>,
           t_description = ''REFUND'', t_amount = - (3 / 2), t_balance = None,
           t_category = None\<rparr>]"
proof -
  have "collect amex_tx (finditer False full_date_tx_pattern (transaction_section amex_text)) =
     Inr [\<lparr>t_date = \<lparr>dt_year = 2024, dt_month = 1, dt_day = 15, dt_hour = 0, dt_minute = 0,
                       dt_second = 0, dt_microsecond = 0\<rparr>,
           t_description = ''COFFEE'', t_amount = - 25, t_balance = None, t_category = None\<rparr>,
          \<lparr>t_date = \<lparr>dt_year = 2024, dt_month = 1, dt_day = 16, dt_hour = 0, dt_minute = 0,
                       dt_second = 0, dt_microsecond = 0\<rparr>,
           t_description = ''TEA'', t_amount = - 3, t_balance = None, t_category = None\<rparr>,
          \<lparr>t_date = \<lparr>dt_year = 2024, dt_month = 1, dt_day = 17, dt_hour = 0, dt_minute = 0,
                       dt_second = 0, dt_microsecond = 0\<rparr>,
           t_description = ''REFUND'', t_amount = - (3 / 2), t_balance = None,
           t_category = None\<rparr>]"
    by code_simp
  then show ?thesis by (simp add: extract_transactions_def)
qed

lemma amex_text_tokens:
  "map (grp 3) (finditer False full_date_tx_pattern (transaction_section amex_text)) =
     [''+$25.00'', ''$3.00'', ''-$1.50'']"
  by code_simp

lemma amex_amount_examples:
  "amex_amount (clean_amount ''$25.00'') = Inr (- 25)"
  "amex_amount (clean_amount ''+$25.00'') = Inr (- 25)"
  "amex_amount (clean_amount ''-$25.00'') = Inr (- 25)"
  by code_simp+






lemma bad_month_slash_Y:
  "strptime (CHR ''1'' # CHR ''3'' # CHR ''/'' # CHR ''4'' # CHR ''5'' # CHR ''/'' # ys) fmt_slash_Y =
     Inl ValueError"
  by code_simp

lemma chase_bad_classified:
  "detect_institution chase_bad_text = ''chase''"
  "detect_statement_type chase_bad_text = ''credit_card''"
  by code_simp+

lemma chase_bad_balance:
  "extract_balance chase_bad_text ''chase'' ''credit_card'' = Inr \<lparr>b_closing = 0, b_opening = None\<rparr>"
  by code_simp

lemma chase_bad_matches:
  "finditer False chase_tx_pattern (transaction_section chase_bad_text) =
     [\<lparr>m_start = 18, m_end = 36, m_text = ''13/45 COFFEE $5.00'',
       m_groups = [(3, ''$5.00''), (2, ''COFFEE''), (1, ''13/45'')], m_rest = []\<rparr>]"
  by code_simp

lemma chase_bad_transactions:
  "extract_transactions now chase_bad_text ''chase'' ''credit_card'' = Inl ValueError"
  by (simp add: extract_transactions_def chase_bad_matches chase_tx_def grp_def
      bad_month_slash_Y)

lemma bofa_bad_classified:
  "detect_institution bofa_bad_text = ''bofa''"
  "detect_statement_type bofa_bad_text = ''bank''"
  by code_simp+

lemma bofa_bad_balance:
  "extract_balance bofa_bad_text ''bofa'' ''bank'' = Inr \<lparr>b_closing = 0, b_opening = None\<rparr>"
  by code_simp

lemma bofa_bad_collect:
  "collect bofa_tx (finditer False full_date_tx_pattern (transaction_section bofa_bad_text)) =
     Inl ValueError"
  by code_simp

lemma bofa_bad_transactions:
  "extract_transactions now bofa_bad_text ''bofa'' ''bank'' = Inl ValueError"
  by (simp add: extract_transactions_def bofa_bad_collect)

lemma amex_bad_classified:
  "detect_institution amex_bad_text = ''amex''"
  "detect_statement_type amex_bad_text = ''credit_card''"
  by code_simp+

lemma amex_bad_balance:
  "extract_balance amex_bad_text ''amex'' ''credit_card'' =
     Inr \<lparr>b_closing = 0, b_opening = None\<rparr>"
  by code_simp

lemma amex_bad_collect:
  "collect amex_tx (finditer False full_date_tx_pattern (transaction_section amex_bad_text)) =
     Inl ValueError"
  by code_simp

lemma amex_bad_transactions:
  "extract_transactions now amex_bad_text ''amex'' ''credit_card'' = Inl ValueError"
  by (simp add: extract_transactions_def amex_bad_collect)

lemma generic_bad_classified:
  "detect_institution generic_bad_text = ''unknown''"
  "detect_statement_type generic_bad_text = ''unknown''"
  by code_simp+

lemma generic_bad_matches:
  "finditer False (combined_pattern slash_date) (transaction_section generic_bad_text) =
     [\<lparr>m_start = 0, m_end = 18, m_text = ''13/45 COFFEE $5.00'',
       m_groups = [(3, ''$5.00''), (2, ''COFFEE''), (1, ''13/45'')], m_rest = []\<rparr>]"
  "finditer False (combined_pattern dash_date) (transaction_section generic_bad_text) = []"
  by code_simp+

lemma generic_bad_parts:
  "py_float (clean_amount ''$5.00'') = Some 5"
  "strip ''COFFEE'' = ''COFFEE''"
  "categorize_transaction ''COFFEE'' = Some ''dining''"
  by code_simp+

lemma generic_bad_date: "generic_date now ''13/45'' = Inl ValueError"
  by (simp add: generic_date_def split_len_def bad_month_slash_Y)

lemma generic_bad_transactions:
  "extract_transactions now generic_bad_text ''unknown'' ''unknown'' =
     Inr [\<lparr>t_date = now, t_description = ''COFFEE'', t_amount = 5, t_balance = None,
           t_category = Some ''dining''\<rparr>]"
  by (simp add: extract_transactions_def generic_date_patterns_def generic_pass_def
      generic_bad_matches List.map_filter_simps generic_tx_def grp_def generic_bad_date
      generic_bad_parts)

lemma closing_patterns_other:
  "statement_type \<noteq> ''credit_card'' \<Longrightarrow>
   closing_patterns statement_type =
     [balance_phrase ''closing'' ''balance'', balance_phrase ''ending'' ''balance'',
      balance_phrase ''new'' ''balance'', balance_phrase ''balance'' ''forward'']"
  by (simp add: closing_patterns_def)

lemma closing_patterns_credit_card:
  "closing_patterns ''credit_card'' =
     [balance_phrase ''closing'' ''balance'', balance_phrase ''ending'' ''balance'',
      balance_phrase ''new'' ''balance'', balance_phrase ''balance'' ''forward'',
      balance_phrase ''new'' ''balance'', balance_phrase ''total'' ''balance'',
      balance_phrase ''statement'' ''balance'']"
  by (simp add: closing_patterns_def)

lemma extract_balance_closing:
  assumes "extract_balance text i st = Inr b"
  shows "(case first_search (closing_patterns st) text of
            Some m \<Rightarrow> to_float (clean_amount (grp 1 m))
          | None \<Rightarrow> Inr 0) = Inr (b_closing b)"
  using assms
  by (auto simp: extract_balance_def split: sum.splits option.splits)

lemma first_search_third:
  assumes "\<not> matches True p1 text" "\<not> matches True p2 text" "re_search True p3 text = Some m"
  shows "first_search (p1 # p2 # p3 # ps) text = Some m"
  using assms by (simp add: matches_def)

lemma new_balance_type: "detect_statement_type new_balance_text = ''unknown''"
  by code_simp

lemma new_balance_institution: "detect_institution new_balance_text = ''unknown''"
  by code_simp

lemma new_balance_matches:
  "matches True (balance_phrase ''new'' ''balance'') new_balance_text"
  "\<not> matches True (balance_phrase ''closing'' ''balance'') new_balance_text"
  "\<not> matches True (balance_phrase ''ending'' ''balance'') new_balance_text"
  "\<not> matches True (balance_phrase ''balance'' ''forward'') new_balance_text"
  by code_simp+

lemma new_balance_result:
  "extract_balance new_balance_text ''unknown'' ''unknown'' =
     Inr \<lparr>b_closing = 100, b_opening = None\<rparr>"
  by code_simp

lemma new_balance_search:
  "map_option (grp 1) (re_search True (balance_phrase ''new'' ''balance'') new_balance_text) =
     Some ''$100.00''"
  by code_simp

lemma sentinel_closing:
  "list_all (\<lambda>p. \<not> matches True p sentinel_text) (closing_patterns ''unknown'')"
  by code_simp

lemma code_char_of: "0 \<le> k \<Longrightarrow> k < 256 \<Longrightarrow> code (char_of k) = k"
  by (simp add: code_def)

lemma py_lower_digit: "py_isdigit (py_lower x) = py_isdigit x"
proof (cases "(65 \<le> code x \<and> code x \<le> 90) \<or> (192 \<le> code x \<and> code x \<le> 222 \<and> code x \<noteq> 215)")
  case True
  then have r: "0 \<le> code x + 32" "code x + 32 < 256" by auto
  have "py_lower x = char_of (code x + 32)"
    unfolding py_lower_def Let_def using True by (rule if_P)
  then have "code (py_lower x) = code x + 32" using code_char_of [OF r] by simp
  with True show ?thesis by (auto simp: py_isdigit_def Let_def)
next
  case False
  have "py_lower x = x"
    unfolding py_lower_def Let_def using False by (rule if_not_P)
  then show ?thesis by simp
qed

lemma py_upper_digit: "py_isdigit (py_upper x) = py_isdigit x"
proof (cases "(97 \<le> code x \<and> code x \<le> 122) \<or> (224 \<le> code x \<and> code x \<le> 254 \<and> code x \<noteq> 247)")
  case True
  then have r: "0 \<le> code x - 32" "code x - 32 < 256" by auto
  have "py_upper x = char_of (code x - 32)"
    unfolding py_upper_def Let_def using True by (rule if_P)
  then have "code (py_upper x) = code x - 32" using code_char_of [OF r] by simp
  with True show ?thesis by (auto simp: py_isdigit_def Let_def)
next
  case False
  have "py_upper x = x"
    unfolding py_upper_def Let_def using False by (rule if_not_P)
  then show ?thesis by simp
qed

lemma digit_atom: "atom_ok ci (ASet [CDigit]) x = py_isdigit x"
  by (simp add: in_set_def py_lower_digit py_upper_digit)

lemma mt_four_digits:
  assumes "mt ci [R (Rep (ASet [CDigit]) 4 (Some 4) True), Close n s] s c = Some (rest, c')"
  shows "\<exists>t. c' = (n, t) # c \<and> four_digits t"
proof -
  from assms obtain x1 x2 x3 x4 r where s: "s = x1 # x2 # x3 # x4 # r"
    and d: "py_isdigit x1" "py_isdigit x2" "py_isdigit x3" "py_isdigit x4"
    and c: "c' = (n, take (length s - length r) s) # c"
    by (auto simp: mt.simps(7) dec_hi_def digit_atom simp del: atom_ok.simps
        split: list.splits if_splits)
  from s have "take (length s - length r) s = [x1, x2, x3, x4]" by simp
  with c d show ?thesis by (simp add: four_digits_def)
qed

lemma mt_last_group:
  assumes "mt ci k s c = Some (rest, c')"
    and "k = k1 @ [R r0]" and "ends_d4 n r0"
  shows "\<exists>t c0. c' = (n, t) # c0 \<and> four_digits t"
  using assms
proof (induction ci k s c arbitrary: k1 r0 rule: mt.induct)
  case (1 ci s c)
  then show ?case by simp
next
  case (2 ci n' s0 k s c)
  from "2.prems"(2) obtain k1' where "k = k1' @ [R r0]"
    by (cases k1) auto
  with "2.prems" "2.IH" show ?case by simp
next
  case (3 ci k s c)
  from "3.prems"(2,3) obtain k1' where "k = k1' @ [R r0]"
    by (cases k1) auto
  with "3.prems" "3.IH" show ?case by simp
next
  case (4 ci k s c)
  from "4.prems"(2,3) obtain k1' where "k = k1' @ [R r0]"
    by (cases k1) auto
  with "4.prems" "4.IH" show ?case by simp
next
  case (5 ci a as k s c)
  from "5.prems"(2,3) obtain k1' where k: "k = k1' @ [R r0]"
    by (cases k1) auto
  from "5.prems"(1) obtain x xs where s: "s = x # xs" and ok: "atom_ok ci (AChar a) x"
    and m: "mt ci (R (Lit as) # k) xs c = Some (rest, c')"
    by (auto split: list.splits if_splits)
  have "R (Lit as) # k = (R (Lit as) # k1') @ [R r0]"
    using k by simp
  from "5.IH" [OF s ok m this "5.prems"(3)] show ?case .
next
  case (6 ci a k s c)
  from "6.prems"(2,3) obtain k1' where k: "k = k1' @ [R r0]"
    by (cases k1) auto
  from "6.prems"(1) obtain x xs where s: "s = x # xs" and ok: "atom_ok ci a x"
    and m: "mt ci k xs c = Some (rest, c')"
    by (auto split: list.splits if_splits)
  from "6.IH" [OF s ok m k "6.prems"(3)] show ?case .
next
  case (7 ci a lo hi g k s c)
  note e = "7.prems"(3)
  from "7.prems"(2,3) obtain k1' where k: "k = k1' @ [R r0]"
    by (cases k1) auto
  have k': "\<And>l h. R (Rep a l h g) # k = (R (Rep a l h g) # k1') @ [R r0]"
    using k by simp
  let ?inner = "(case s of [] \<Rightarrow> None
      | x # xs \<Rightarrow> if atom_ok ci a x then mt ci (R (Rep a 0 (dec_hi hi) g) # k) xs c else None)"
  note eq = mt.simps(7) [of ci a lo hi g k s c]
  have inner: "?inner = Some (rest, c') \<Longrightarrow>
      \<exists>x xs. s = x # xs \<and> atom_ok ci a x \<and>
        mt ci (R (Rep a 0 (dec_hi hi) g) # k) xs c = Some (rest, c')"
    by (auto split: list.splits if_splits)
  show ?case
  proof (cases "0 < lo")
    case True
    with "7.prems"(1) eq have "(case s of [] \<Rightarrow> None
      | x # xs \<Rightarrow> if atom_ok ci a x then mt ci (R (Rep a (lo - 1) (dec_hi hi) g) # k) xs c
                  else None) = Some (rest, c')" by simp
    then obtain x xs where "s = x # xs" "atom_ok ci a x"
      "mt ci (R (Rep a (lo - 1) (dec_hi hi) g) # k) xs c = Some (rest, c')"
      by (auto split: list.splits if_splits)
    with True "7.IH"(1) k' e show ?thesis by blast
  next
    case lo: False
    show ?thesis
    proof (cases "hi = Some 0")
      case True
      with lo "7.prems"(1) eq have "mt ci k s c = Some (rest, c')" by simp
      with lo True "7.IH"(2) k e show ?thesis by blast
    next
      case hi: False
      show ?thesis
      proof (cases g)
        case True
        show ?thesis
        proof (cases ?inner)
          case None
          with lo hi True "7.prems"(1) eq have "mt ci k s c = Some (rest, c')" by simp
          with lo hi True None "7.IH"(4) k e show ?thesis by blast
        next
          case (Some res)
          with lo hi True "7.prems"(1) eq have "?inner = Some (rest, c')" by simp
          from inner [OF this] obtain x xs where "s = x # xs" "atom_ok ci a x"
            "mt ci (R (Rep a 0 (dec_hi hi) g) # k) xs c = Some (rest, c')" by blast
          with lo hi True "7.IH"(3) k' e show ?thesis by blast
        qed
      next
        case False
        show ?thesis
        proof (cases "mt ci k s c")
          case (Some res)
          with lo hi False "7.prems"(1) eq have "mt ci k s c = Some (rest, c')" by simp
          with lo hi False "7.IH"(5) k e show ?thesis by blast
        next
          case None
          with lo hi False "7.prems"(1) eq have "?inner = Some (rest, c')" by simp
          from inner [OF this] obtain x xs where "s = x # xs" "atom_ok ci a x"
            "mt ci (R (Rep a 0 (dec_hi hi) g) # k) xs c = Some (rest, c')" by blast
          with lo hi False None "7.IH"(6) k' e show ?thesis by blast
        qed
      qed
    qed
  qed
next
  case (8 ci r1 r2 k s c)
  from "8.prems"(1) have m: "mt ci (R r1 # R r2 # k) s c = Some (rest, c')" by simp
  show ?case
  proof (cases k1)
    case Nil
    with "8.prems"(2,3) have "R r1 # R r2 # k = [R r1] @ [R r2]" "ends_d4 n r2" by auto
    with "8.IH" m show ?thesis by blast
  next
    case (Cons i k1')
    with "8.prems"(2) have "R r1 # R r2 # k = (R r1 # R r2 # k1') @ [R r0]" by simp
    with "8.IH" m "8.prems"(3) show ?thesis by blast
  qed
next
  case (9 ci r1 r2 k s c)
  from "9.prems"(2,3) obtain k1' where k: "k = k1' @ [R r0]"
    by (cases k1) auto
  have k1: "R r1 # k = (R r1 # k1') @ [R r0]"
    and k2: "R r2 # k = (R r2 # k1') @ [R r0]"
    using k by simp_all
  from "9.prems"(1) have "mt ci (R r1 # k) s c = Some (rest, c')
      \<or> (mt ci (R r1 # k) s c = None \<and> mt ci (R r2 # k) s c = Some (rest, c'))"
    by (auto split: option.splits)
  then show ?case using "9.IH" k1 k2 "9.prems"(3) by blast
next
  case (10 ci n' r k s c)
  show ?case
  proof (cases k1)
    case Nil
    with "10.prems" have "mt ci [R (Rep (ASet [CDigit]) 4 (Some 4) True), Close n s] s c
        = Some (rest, c')" by auto
    from mt_four_digits [OF this] show ?thesis by blast
  next
    case (Cons i k1')
    with "10.prems"(2) have k: "k = k1' @ [R r0]"
      by simp
    have "R r # Close n' s # k = (R r # Close n' s # k1') @ [R r0]"
      using k by simp
    with "10.prems"(1,3) "10.IH" show ?thesis by simp
  qed
next
  case (11 ci r k s c)
  from "11.prems"(2,3) obtain k1' where k: "k = k1' @ [R r0]"
    by (cases k1) auto
  from "11.prems"(1) obtain res where "mt ci [R r] s c = Some res" "mt ci k s c = Some (rest, c')"
    by (auto split: option.splits)
  with "11.IH"(2) k "11.prems"(3) show ?case by blast
next
  case (12 ci k s c)
  from "12.prems"(2,3) obtain k1' where k: "k = k1' @ [R r0]"
    by (cases k1) auto
  from "12.prems"(1) have "s = [] \<or> s = [CHR ''\<newline>'']" "mt ci k s c = Some (rest, c')"
    by (auto split: if_splits)
  with "12.IH" k "12.prems"(3) show ?case by blast
qed

lemma scan_groups:
  "scan ci r pos s = Some m \<Longrightarrow> \<exists>s' rest. mt ci [R r] s' [] = Some (rest, m_groups m)"
proof (induction s arbitrary: pos)
  case Nil
  then obtain rest c where "mt ci [R r] [] [] = Some (rest, c)" "m_groups m = c"
    by (auto split: option.splits)
  then show ?case by blast
next
  case (Cons x xs)
  show ?case
  proof (cases "mt ci [R r] (x # xs) []")
    case None
    with Cons.prems have "scan ci r (Suc pos) xs = Some m" by simp
    from Cons.IH [OF this] show ?thesis .
  next
    case (Some res)
    obtain rest c where res: "res = (rest, c)" by (cases res)
    with Some Cons.prems have "m_groups m = c" by auto
    with Some res show ?thesis by blast
  qed
qed

lemma account_patterns_end:
  "k < length account_patterns \<Longrightarrow> ends_d4 1 (account_patterns ! k)"
  by (auto simp: account_patterns_def d4_def digits_def less_Suc_eq numeral_3_eq_3)

lemma account_pattern_digits:
  assumes "k < length account_patterns"
    and "re_search True (account_patterns ! k) text = Some m"
  shows "four_digits (grp 1 m)"
proof -
  from assms(2) obtain s' rest where
    "mt True ([] @ [R (account_patterns ! k)]) s' [] = Some (rest, m_groups m)"
    unfolding re_search_def by (auto dest: scan_groups)
  from mt_last_group [OF this refl account_patterns_end [OF assms(1)]] obtain t c0 where
    "m_groups m = (1, t) # c0" "four_digits t" by blast
  then show ?thesis by (simp add: grp_def)
qed

lemma first_search_first_nomatch:
  assumes "k < length ps" and "re_search True (ps ! k) text = Some m"
    and "\<forall>j < k. \<not> matches True (ps ! j) text"
  shows "first_search ps text = Some m"
  using assms(1,2)
proof (rule first_search_first)
  show "\<forall>j<k. re_search True (ps ! j) text = None"
    using assms(3) by (simp add: matches_def)
qed

lemma brokerage_type: "detect_statement_type brokerage_text = ''investment''"
  by code_simp

lemma brokerage_institution: "detect_institution brokerage_text = ''unknown''"
  by code_simp

lemma brokerage_match:
  "map_option (grp 1) (re_search True (account_patterns ! 0) brokerage_text) = Some ''1234''"
  by code_simp

lemma checking_type: "detect_statement_type checking_text = ''bank''"
  by code_simp

lemma checking_match:
  "re_search True (account_patterns ! 0) checking_text =
     Some \<lparr>m_start = 9, m_end = 33, m_text = ''Account Number: ****1234'',
            m_groups = [(1, ''1234'')], m_rest = []\<rparr>"
  by code_simp

lemma sentinel_account:
  "list_all (\<lambda>p. \<not> matches True p sentinel_text) account_patterns"
  "list_all (\<lambda>p. \<not> matches True p sentinel_text) name_patterns"
  by code_simp+

section \<open>The claims\<close>

text \<open>
  C6. The institution classifier tests the pattern table in the order of its declaration
  and returns the identifier of the first pattern that matches the text: the entry at
  position \<open>k\<close> is the answer whenever it matches and no entry before it does. When no
  entry matches, the answer is \<open>unknown\<close>. In particular a text that matches both the
  \<open>chase\<close> and the \<open>bofa\<close> pattern is classified as \<open>chase\<close>, the earlier entry.
\<close>

theorem detect_institution_first_declared:
  "(\<forall>k < length institution_patterns.
      matches True (snd (institution_patterns ! k)) text \<longrightarrow>
      (\<forall>j < k. \<not> matches True (snd (institution_patterns ! j)) text) \<longrightarrow>
      detect_institution text = fst (institution_patterns ! k))
   \<and> ((\<forall>k < length institution_patterns.
          \<not> matches True (snd (institution_patterns ! k)) text) \<longrightarrow>
        detect_institution text = ''unknown'')
   \<and> (matches True (snd (institution_patterns ! 0)) text \<longrightarrow>
        matches True (snd (institution_patterns ! 1)) text \<longrightarrow>
        fst (institution_patterns ! 0) = ''chase'' \<and> fst (institution_patterns ! 1) = ''bofa''
        \<and> detect_institution text = ''chase'')"
proof (intro conjI allI impI)
  fix k
  assume "k < length institution_patterns"
    and "matches True (snd (institution_patterns ! k)) text"
    and "\<forall>j < k. \<not> matches True (snd (institution_patterns ! j)) text"
  then have "first_match institution_patterns text = Some (fst (institution_patterns ! k))"
    by (rule first_match_first)
  then show "detect_institution text = fst (institution_patterns ! k)"
    by (simp add: detect_institution_def)
next
  assume "\<forall>k < length institution_patterns.
            \<not> matches True (snd (institution_patterns ! k)) text"
  then have "first_match institution_patterns text = None"
    by (simp only: first_match_None)
  then show "detect_institution text = ''unknown''"
    by (simp add: detect_institution_def)
next
  show "fst (institution_patterns ! 0) = ''chase''"
    by (simp add: institution_patterns_def)
next
  show "fst (institution_patterns ! 1) = ''bofa''"
    by (simp add: institution_patterns_def)
next
  assume "matches True (snd (institution_patterns ! 0)) text"
  then have "matches True (Alt (Lit ''CHASE'') (Lit ''JPMorgan Chase'')) text"
    by (simp add: institution_patterns_def)
  then show "detect_institution text = ''chase''"
    by (simp add: detect_institution_def institution_patterns_def)
qed

theorem detect_institution_first_declared_witness:
  "matches True (snd (institution_patterns ! 0)) ''Chase or Bank of America''
   \<and> matches True (snd (institution_patterns ! 1)) ''Chase or Bank of America''
   \<and> detect_institution ''Chase or Bank of America'' = ''chase''
   \<and> list_all (\<lambda>e. \<not> matches True (snd e) ''a grocery receipt'') institution_patterns
   \<and> detect_institution ''a grocery receipt'' = ''unknown''"
proof -
  have m0: "matches True (snd (institution_patterns ! 0)) ''Chase or Bank of America''"
    by code_simp
  have m1: "matches True (snd (institution_patterns ! 1)) ''Chase or Bank of America''"
    by code_simp
  have none: "list_all (\<lambda>e. \<not> matches True (snd e) ''a grocery receipt'')
                institution_patterns"
    by code_simp
  then have none': "\<forall>k < length institution_patterns.
         \<not> matches True (snd (institution_patterns ! k)) ''a grocery receipt''"
    by (simp only: list_all_length)
  from detect_institution_first_declared [of "''Chase or Bank of America''"] m0 m1
  have "detect_institution ''Chase or Bank of America'' = ''chase''" by blast
  moreover from detect_institution_first_declared [of "''a grocery receipt''"] none'
  have "detect_institution ''a grocery receipt'' = ''unknown''" by blast
  ultimately show ?thesis using m0 m1 none by blast
qed

text \<open>
  C7. The confidence map is the reference definition. The transactions score is 0.1 for an
  empty list and \<open>min(0.9, 0.3 + 0.02 \<times> count)\<close> otherwise, hence 0.4 at five
  transactions and 0.9 at fifty or more. The account score is 0.9 when the number is not
  \<open>Unknown\<close> and 0.3 otherwise, the balance score 0.8 when an opening balance is present
  and 0.5 otherwise, and the overall score is the arithmetic mean of the four field scores.
  Scores are Python floats: a decimal such as 0.4 stands for the float nearest to it.
\<close>

theorem calculate_confidence_reference:
  "c_transactions (calculate_confidence today a p b txs) =
     reference_transactions_score (length txs)
   \<and> (txs = [] \<longrightarrow> c_transactions (calculate_confidence today a p b txs) = fl (1 / 10))
   \<and> (length txs = 5 \<longrightarrow> c_transactions (calculate_confidence today a p b txs) = fl (4 / 10))
   \<and> (50 \<le> length txs \<longrightarrow>
        c_transactions (calculate_confidence today a p b txs) = fl (9 / 10))
   \<and> c_account_info (calculate_confidence today a p b txs) =
        (if a_number a = ''Unknown'' then fl (3 / 10) else fl (9 / 10))
   \<and> c_balance (calculate_confidence today a p b txs) =
        (case b_opening b of Some v \<Rightarrow> fl (8 / 10) | None \<Rightarrow> fl (5 / 10))
   \<and> c_overall (calculate_confidence today a p b txs) =
        float_mean4 (c_account_info (calculate_confidence today a p b txs))
          (c_period (calculate_confidence today a p b txs))
          (c_balance (calculate_confidence today a p b txs))
          (c_transactions (calculate_confidence today a p b txs))"
proof (intro conjI impI)
  show "c_transactions (calculate_confidence today a p b txs) =
          reference_transactions_score (length txs)"
    by (simp add: c_transactions_eq reference_transactions_score_def fl_mul_def mult.commute)
next
  assume "txs = []"
  then show "c_transactions (calculate_confidence today a p b txs) = fl (1 / 10)"
    by (simp add: c_transactions_eq)
next
  assume h: "length txs = 5"
  then have "0 < length txs" by linarith
  with tx_score_5 h show "c_transactions (calculate_confidence today a p b txs) = fl (4 / 10)"
    by (simp only: c_transactions_eq if_True of_nat_numeral)
next
  assume h: "50 \<le> length txs"
  then have "0 < length txs" by linarith
  with tx_score_cap [OF h] show "c_transactions (calculate_confidence today a p b txs) = fl (9 / 10)"
    by (simp only: c_transactions_eq if_True)
next
  show "c_account_info (calculate_confidence today a p b txs) =
          (if a_number a = ''Unknown'' then fl (3 / 10) else fl (9 / 10))"
    by (simp add: calculate_confidence_def Let_def)
next
  show "c_balance (calculate_confidence today a p b txs) =
          (case b_opening b of Some v \<Rightarrow> fl (8 / 10) | None \<Rightarrow> fl (5 / 10))"
    by (simp add: calculate_confidence_def Let_def split: option.splits)
next
  show "c_overall (calculate_confidence today a p b txs) =
          float_mean4 (c_account_info (calculate_confidence today a p b txs))
            (c_period (calculate_confidence today a p b txs))
            (c_balance (calculate_confidence today a p b txs))
            (c_transactions (calculate_confidence today a p b txs))"
    by (simp only: calculate_confidence_def Let_def confidence.simps float_mean4_def)
qed


theorem calculate_confidence_reference_witness:
  "c_transactions (calculate_confidence sample_now sample_account sample_period sample_balance [])
     = fl (1 / 10)
   \<and> c_transactions (calculate_confidence sample_now sample_account sample_period sample_balance
         (replicate 5 sample_tx)) = fl (4 / 10)
   \<and> 50 \<le> length (replicate 64 sample_tx)
   \<and> c_transactions (calculate_confidence sample_now sample_account sample_period sample_balance
         (replicate 64 sample_tx)) = fl (9 / 10)"
proof -
  note inst = calculate_confidence_reference
    [of sample_now sample_account sample_period sample_balance]
  have l5: "length (replicate 5 sample_tx) = 5" by simp
  have l64: "50 \<le> length (replicate 64 sample_tx)" by simp
  from inst [of "[]"] have "c_transactions
      (calculate_confidence sample_now sample_account sample_period sample_balance []) =
      fl (1 / 10)" by blast
  moreover from inst [of "replicate 5 sample_tx"] l5 have "c_transactions
      (calculate_confidence sample_now sample_account sample_period sample_balance
        (replicate 5 sample_tx)) = fl (4 / 10)" by blast
  moreover from inst [of "replicate 64 sample_tx"] l64 have "c_transactions
      (calculate_confidence sample_now sample_account sample_period sample_balance
        (replicate 64 sample_tx)) = fl (9 / 10)" by blast
  ultimately show ?thesis using l64 by blast
qed


text \<open>
  C8. When none of the period phrasings matches the text, the extracted period runs from
  the first day of the current month to the current timestamp, as the extractor reads the
  clock. The scorer reads the clock again and gives a period the score 0.3 exactly when
  its start has day 1 and the year and month of the scorer's reading, and 0.9 otherwise.
  So the default period scores 0.3 when the scorer's reading falls in the month of the
  extractor's reading, and 0.9 when the month has changed between the two readings.
\<close>

theorem default_period_detection:
  "((\<forall>p \<in> set period_patterns. \<not> matches True p text) \<longrightarrow>
      extract_period now text institution statement_type =
        \<lparr>p_start = first_of_month now, p_end = now\<rparr>
      \<and> c_period (calculate_confidence today a
                    (extract_period now text institution statement_type) b txs) =
          (if dt_year today = dt_year now \<and> dt_month today = dt_month now
           then fl (3 / 10) else fl (9 / 10)))
   \<and> c_period (calculate_confidence today a per b txs) =
       (if dt_year (p_start per) = dt_year today \<and> dt_month (p_start per) = dt_month today \<and>
           dt_day (p_start per) = 1
        then fl (3 / 10) else fl (9 / 10))"
proof (intro conjI impI)
  assume h: "\<forall>p \<in> set period_patterns. \<not> matches True p text"
  then have "first_search period_patterns text = None" by (rule first_search_no_match)
  then show d: "extract_period now text institution statement_type =
        \<lparr>p_start = first_of_month now, p_end = now\<rparr>"
    by (simp add: extract_period_def)
  show "c_period (calculate_confidence today a
                    (extract_period now text institution statement_type) b txs) =
          (if dt_year today = dt_year now \<and> dt_month today = dt_month now
           then fl (3 / 10) else fl (9 / 10))"
    by (auto simp add: c_period_eq d first_of_month_def)
next
  show "c_period (calculate_confidence today a per b txs) =
       (if dt_year (p_start per) = dt_year today \<and> dt_month (p_start per) = dt_month today \<and>
           dt_day (p_start per) = 1
        then fl (3 / 10) else fl (9 / 10))"
    by (rule c_period_eq)
qed

theorem default_period_detection_witness:
  "list_all (\<lambda>p. \<not> matches True p sentinel_text) period_patterns
   \<and> extract_period sample_now sentinel_text ''unknown'' ''unknown'' =
        \<lparr>p_start = first_of_month sample_now, p_end = sample_now\<rparr>
   \<and> c_period (calculate_confidence sample_now sample_account
        (extract_period sample_now sentinel_text ''unknown'' ''unknown'') sample_balance [])
       = fl (3 / 10)"
proof -
  have h: "\<forall>p \<in> set period_patterns. \<not> matches True p sentinel_text"
    using sentinel_period by (simp only: list_all_iff)
  from default_period_detection
    [of sentinel_text sample_now "''unknown''" "''unknown''" sample_now sample_account
        sample_balance "[]"] h
  have "extract_period sample_now sentinel_text ''unknown'' ''unknown'' =
        \<lparr>p_start = first_of_month sample_now, p_end = sample_now\<rparr>"
    and "c_period (calculate_confidence sample_now sample_account
        (extract_period sample_now sentinel_text ''unknown'' ''unknown'') sample_balance [])
       = (if dt_year sample_now = dt_year sample_now \<and> dt_month sample_now = dt_month sample_now
          then fl (3 / 10) else fl (9 / 10))"
    by blast+
  then show ?thesis using sentinel_period by simp
qed

theorem month_rollover_counterexample:
  "list_all (\<lambda>p. \<not> matches True p sentinel_text) period_patterns
   \<and> extract_period month_end_now sentinel_text ''unknown'' ''unknown'' =
        \<lparr>p_start = first_of_month month_end_now, p_end = month_end_now\<rparr>
   \<and> c_period (calculate_confidence next_month_now sample_account
        (extract_period month_end_now sentinel_text ''unknown'' ''unknown'') sample_balance [])
       = fl (9 / 10)
   \<and> (case parse_text month_end_now month_end_now next_month_now sentinel_text of
        Inl e \<Rightarrow> False
      | Inr r \<Rightarrow> r_period r = \<lparr>p_start = first_of_month month_end_now, p_end = month_end_now\<rparr>
               \<and> c_period (r_confidence r) = fl (9 / 10))
   \<and> fl (9 / 10) \<noteq> fl (3 / 10)"
proof -
  have ne: "fl (9 / 10) \<noteq> fl (3 / 10)" unfolding fl_consts by simp
  have p: "extract_period month_end_now sentinel_text ''unknown'' ''unknown'' =
        \<lparr>p_start = first_of_month month_end_now, p_end = month_end_now\<rparr>"
    by (rule sentinel_period_default)
  have c: "c_period (calculate_confidence next_month_now a
        \<lparr>p_start = first_of_month month_end_now, p_end = month_end_now\<rparr> b txs) = fl (9 / 10)"
    for a b txs
    by (simp add: c_period_eq first_of_month_def month_end_now_def next_month_now_def)
  have "(case parse_text month_end_now month_end_now next_month_now sentinel_text of
        Inl e \<Rightarrow> False
      | Inr r \<Rightarrow> r_period r = \<lparr>p_start = first_of_month month_end_now, p_end = month_end_now\<rparr>
               \<and> c_period (r_confidence r) = fl (9 / 10))"
    by (simp add: parse_text_def Let_def sentinel_institution sentinel_type sentinel_balance
        sentinel_transactions p c)
  then show ?thesis using sentinel_period ne by (simp add: p c)
qed

text \<open>
  C10. The pipeline run on the sentinel text \<open>ERROR: Unable to extract text from PDF\<close>
  raises nothing and returns the fully defaulted result, whatever the clock shows:
  institution and statement type \<open>unknown\<close>, account number \<open>Unknown\<close> without a
  name, the default period of the current month, closing balance 0.0 without an opening
  balance, and no transactions.
\<close>

theorem parse_sentinel_defaults:
  "parse_text now_period now_transactions now_confidence sentinel_text =
     Inr \<lparr>r_account_info = \<lparr>a_number = ''Unknown'', a_name = None,
                               a_institution = Some ''unknown'', a_type = Some ''unknown''\<rparr>,
          r_period = \<lparr>p_start = first_of_month now_period, p_end = now_period\<rparr>,
          r_balance = \<lparr>b_closing = 0, b_opening = None\<rparr>,
          r_transactions = [],
          r_confidence =
            calculate_confidence now_confidence
              \<lparr>a_number = ''Unknown'', a_name = None,
                a_institution = Some ''unknown'', a_type = Some ''unknown''\<rparr>
              \<lparr>p_start = first_of_month now_period, p_end = now_period\<rparr>
              \<lparr>b_closing = 0, b_opening = None\<rparr> []\<rparr>
   \<and> detect_institution sentinel_text = ''unknown''
   \<and> detect_statement_type sentinel_text = ''unknown''"
  by (simp add: parse_text_def sentinel_institution sentinel_type sentinel_balance
      sentinel_transactions sentinel_period_default extract_account_info_def Let_def)

theorem parse_sentinel_defaults_witness:
  "(case parse_text month_end_now month_end_now next_month_now sentinel_text of
      Inl e \<Rightarrow> False
    | Inr r \<Rightarrow> a_number (r_account_info r) = ''Unknown'' \<and> a_name (r_account_info r) = None \<and>
              r_transactions r = [] \<and> b_closing (r_balance r) = 0 \<and>
              b_opening (r_balance r) = None \<and>
              r_period r = \<lparr>p_start = first_of_month month_end_now, p_end = month_end_now\<rparr>)"
  using parse_sentinel_defaults [of month_end_now month_end_now next_month_now] by simp

text \<open>
  C3. The pipeline run on the text \<open>01/15 WHOLEFDS ABC 12345 -$50.00\<close>, at
  a clock whose year has four digits, classifies institution and statement type as
  \<open>unknown\<close>, takes the generic strategy and returns exactly one transaction: dated
  January 15 of the current year, with description \<open>WHOLEFDS ABC 12345\<close> and amount
  -50.00, and with no category, since no keyword of the category table occurs in the
  description.
\<close>

theorem wholefds_scenario:
  assumes "1000 \<le> dt_year now_transactions" and "dt_year now_transactions \<le> 9999"
  shows "\<exists>r. parse_text now_period now_transactions now_confidence wholefds_text = Inr r
     \<and> a_institution (r_account_info r) = Some ''unknown''
     \<and> a_type (r_account_info r) = Some ''unknown''
     \<and> r_transactions r =
         [\<lparr>t_date = \<lparr>dt_year = dt_year now_transactions, dt_month = 1, dt_day = 15, dt_hour = 0,
                        dt_minute = 0, dt_second = 0, dt_microsecond = 0\<rparr>,
            t_description = ''WHOLEFDS ABC 12345'', t_amount = - 50, t_balance = None,
            t_category = None\<rparr>]"
  by (simp add: parse_text_def wholefds_institution wholefds_type wholefds_balance
      wholefds_transactions [OF assms] extract_account_info_def Let_def)

theorem wholefds_scenario_witness:
  "1000 \<le> dt_year sample_now \<and> dt_year sample_now \<le> 9999
   \<and> (case parse_text sample_now sample_now month_end_now wholefds_text of
        Inl e \<Rightarrow> False
      | Inr r \<Rightarrow> map t_description (r_transactions r) = [''WHOLEFDS ABC 12345'']
               \<and> map t_amount (r_transactions r) = [- 50]
               \<and> map t_category (r_transactions r) = [None]
               \<and> map (dt_year \<circ> t_date) (r_transactions r) = [2026])"
proof -
  have y: "1000 \<le> dt_year sample_now" "dt_year sample_now \<le> 9999"
    by (simp_all add: sample_now_year)
  from wholefds_scenario
    [where now_period = sample_now and now_confidence = month_end_now, OF y] obtain r where
    "parse_text sample_now sample_now month_end_now wholefds_text = Inr r"
    "r_transactions r =
         [\<lparr>t_date = \<lparr>dt_year = dt_year sample_now, dt_month = 1, dt_day = 15, dt_hour = 0,
                        dt_minute = 0, dt_second = 0, dt_microsecond = 0\<rparr>,
            t_description = ''WHOLEFDS ABC 12345'', t_amount = - 50, t_balance = None,
            t_category = None\<rparr>]"
    by blast
  then show ?thesis using y by (simp add: sample_now_year)
qed

theorem wholefds_category_counterexample:
  "detect_institution wholefds_text = ''unknown''
   \<and> detect_statement_type wholefds_text = ''unknown''
   \<and> extract_transactions sample_now wholefds_text (detect_institution wholefds_text)
         (detect_statement_type wholefds_text) =
       Inr [\<lparr>t_date = \<lparr>dt_year = 2026, dt_month = 1, dt_day = 15, dt_hour = 0,
                         dt_minute = 0, dt_second = 0, dt_microsecond = 0\<rparr>,
             t_description = ''WHOLEFDS ABC 12345'', t_amount = - 50, t_balance = None,
             t_category = None\<rparr>]
   \<and> categorize_transaction ''WHOLEFDS ABC 12345'' \<noteq> Some ''grocery''"
proof -
  have "extract_transactions sample_now wholefds_text ''unknown'' ''unknown'' =
       Inr [\<lparr>t_date = \<lparr>dt_year = 2026, dt_month = 1, dt_day = 15, dt_hour = 0,
                         dt_minute = 0, dt_second = 0, dt_microsecond = 0\<rparr>,
             t_description = ''WHOLEFDS ABC 12345'', t_amount = - 50, t_balance = None,
             t_category = None\<rparr>]"
    using wholefds_transactions [of sample_now] by (simp add: sample_now_year)
  moreover have "categorize_transaction ''WHOLEFDS ABC 12345'' \<noteq> Some ''grocery''"
    by (simp add: wholefds_category)
  ultimately show ?thesis by (simp add: wholefds_institution wholefds_type)
qed

text \<open>
  C1. On a text classified as \<open>amex\<close> and \<open>credit_card\<close> the extractor builds one
  transaction per match of the transaction pattern, and the amount it stores follows the
  sign as the code tests it: a token that begins with a minus sign is stored as its numeric
  value, and every other token, with a plus sign or with no sign, is stored as the negation
  of its numeric value. So \<open>$25.00\<close>, \<open>+$25.00\<close> and \<open>-$25.00\<close> are all stored as
  -25.00.
\<close>

theorem amex_sign_convention:
  "(extract_transactions now text ''amex'' ''credit_card'' = Inr txs \<longrightarrow>
      length txs = length (finditer False full_date_tx_pattern (transaction_section text))
      \<and> (\<forall>i < length txs.
            \<exists>v. py_float (clean_amount
                   (grp 3 (finditer False full_date_tx_pattern (transaction_section text) ! i)))
                 = Some v
              \<and> t_amount (txs ! i) =
                  (if startswith (clean_amount
                        (grp 3 (finditer False full_date_tx_pattern (transaction_section text) ! i)))
                        ''-''
                   then v else - v)))
   \<and> amex_amount (clean_amount ''$25.00'') = Inr (- 25)
   \<and> amex_amount (clean_amount ''+$25.00'') = Inr (- 25)
   \<and> amex_amount (clean_amount ''-$25.00'') = Inr (- 25)"
proof (intro conjI impI allI)
  assume h: "extract_transactions now text ''amex'' ''credit_card'' = Inr txs"
  define ms where "ms = finditer False full_date_tx_pattern (transaction_section text)"
  from h have c: "collect amex_tx ms = Inr txs"
    by (simp add: extract_transactions_def ms_def)
  note ci = collect_Inr [OF c]
  from ci show "length txs = length (finditer False full_date_tx_pattern (transaction_section text))"
    by (simp add: ms_def)
  fix i assume i: "i < length txs"
  with ci have "amex_tx (ms ! i) = Inr (txs ! i)" by simp
  then have "amex_amount (clean_amount (grp 3 (ms ! i))) = Inr (t_amount (txs ! i))"
    by (rule amex_tx_amount)
  then show "\<exists>v. py_float (clean_amount
                   (grp 3 (finditer False full_date_tx_pattern (transaction_section text) ! i)))
                 = Some v
              \<and> t_amount (txs ! i) =
                  (if startswith (clean_amount
                        (grp 3 (finditer False full_date_tx_pattern (transaction_section text) ! i)))
                        ''-''
                   then v else - v)"
    unfolding ms_def by (rule amex_amount_Inr)
qed (rule amex_amount_examples)+

theorem amex_sign_convention_witness:
  "extract_transactions sample_now amex_text ''amex'' ''credit_card'' = Inr amex_text_result
   \<and> length (finditer False full_date_tx_pattern (transaction_section amex_text)) = 3
   \<and> map t_amount amex_text_result = [- 25, - 3, - (3 / 2)]
   \<and> amex_amount (clean_amount ''+$25.00'') = Inr (- 25)"
proof -
  have e: "extract_transactions sample_now amex_text ''amex'' ''credit_card'' = Inr amex_text_result"
    by (simp add: amex_text_transactions amex_text_result_def)
  from amex_sign_convention [of sample_now amex_text amex_text_result] e
  have "length amex_text_result =
          length (finditer False full_date_tx_pattern (transaction_section amex_text))"
    and "amex_amount (clean_amount ''+$25.00'') = Inr (- 25)"
    by blast+
  then show ?thesis using e by (simp add: amex_text_result_def)
qed

theorem amex_plus_sign_counterexample:
  "detect_institution amex_text = ''amex''
   \<and> detect_statement_type amex_text = ''credit_card''
   \<and> map (grp 3) (finditer False full_date_tx_pattern (transaction_section amex_text)) =
        [''+$25.00'', ''$3.00'', ''-$1.50'']
   \<and> extract_transactions sample_now amex_text (detect_institution amex_text)
         (detect_statement_type amex_text) =
     Inr [\<lparr>t_date = \<lparr>dt_year = 2024, dt_month = 1, dt_day = 15, dt_hour = 0, dt_minute = 0,
                       dt_second = 0, dt_microsecond = 0\<rparr>,
           t_description = ''COFFEE'', t_amount = - 25, t_balance = None, t_category = None\<rparr>,
          \<lparr>t_date = \<lparr>dt_year = 2024, dt_month = 1, dt_day = 16, dt_hour = 0, dt_minute = 0,
                       dt_second = 0, dt_microsecond = 0\<rparr>,
           t_description = ''TEA'', t_amount = - 3, t_balance = None, t_category = None\<rparr>,
          \<lparr>t_date = \<lparr>dt_year = 2024, dt_month = 1, dt_day = 17, dt_hour = 0, dt_minute = 0,
                       dt_second = 0, dt_microsecond = 0\<rparr>,
           t_description = ''REFUND'', t_amount = - (3 / 2), t_balance = None,
           t_category = None\<rparr>]"
  by (simp add: amex_text_institution amex_text_type amex_text_tokens amex_text_transactions)




text \<open>
  C2. A date token that fits the transaction pattern and is no date of the calendar, such
  as \<open>13/45\<close> or \<open>13/45/2023\<close>: the generic strategy stores the current timestamp in
  its place, whereas the Chase, the Bank of America and the American Express strategy raise
  \<open>ValueError\<close>, and the pipeline with them, at every clock reading.
\<close>

theorem bad_date_token_raises:
  "detect_institution chase_bad_text = ''chase''
   \<and> detect_statement_type chase_bad_text = ''credit_card''
   \<and> parse_text now_period now_transactions now_confidence chase_bad_text = Inl ValueError
   \<and> detect_institution bofa_bad_text = ''bofa''
   \<and> detect_statement_type bofa_bad_text = ''bank''
   \<and> parse_text now_period now_transactions now_confidence bofa_bad_text = Inl ValueError
   \<and> detect_institution amex_bad_text = ''amex''
   \<and> detect_statement_type amex_bad_text = ''credit_card''
   \<and> parse_text now_period now_transactions now_confidence amex_bad_text = Inl ValueError
   \<and> extract_transactions now_transactions generic_bad_text (detect_institution generic_bad_text)
         (detect_statement_type generic_bad_text) =
       Inr [\<lparr>t_date = now_transactions, t_description = ''COFFEE'', t_amount = 5, t_balance = None,
             t_category = Some ''dining''\<rparr>]"
  by (simp add: parse_text_def Let_def chase_bad_classified chase_bad_balance
      chase_bad_transactions bofa_bad_classified bofa_bad_balance bofa_bad_transactions
      amex_bad_classified amex_bad_balance amex_bad_transactions generic_bad_classified
      generic_bad_transactions)

text \<open>
  C5. The closing-balance patterns tried for a statement that is not a credit card are, in
  this order, \<open>closing balance\<close>, \<open>ending balance\<close>, \<open>new balance\<close> and
  \<open>balance forward\<close>; for a credit card the phrasings \<open>new balance\<close> (once more),
  \<open>total balance\<close> and \<open>statement balance\<close> are appended. When no pattern of
  the list matches the text, the closing balance of the result is the default 0.0. A text
  with a \<open>new balance\<close> phrasing and neither of the two phrasings before it gets the
  amount of that phrasing as its closing balance, whatever the statement type.
\<close>

theorem closing_balance_patterns:
  "(statement_type \<noteq> ''credit_card'' \<longrightarrow>
      closing_patterns statement_type =
        [balance_phrase ''closing'' ''balance'', balance_phrase ''ending'' ''balance'',
         balance_phrase ''new'' ''balance'', balance_phrase ''balance'' ''forward''])
   \<and> closing_patterns ''credit_card'' =
        [balance_phrase ''closing'' ''balance'', balance_phrase ''ending'' ''balance'',
         balance_phrase ''new'' ''balance'', balance_phrase ''balance'' ''forward'',
         balance_phrase ''new'' ''balance'', balance_phrase ''total'' ''balance'',
         balance_phrase ''statement'' ''balance'']
   \<and> ((\<forall>p \<in> set (closing_patterns statement_type). \<not> matches True p text) \<longrightarrow>
        extract_balance text institution statement_type = Inr b \<longrightarrow> b_closing b = 0)
   \<and> (\<not> matches True (balance_phrase ''closing'' ''balance'') text \<longrightarrow>
        \<not> matches True (balance_phrase ''ending'' ''balance'') text \<longrightarrow>
        re_search True (balance_phrase ''new'' ''balance'') text = Some m \<longrightarrow>
        extract_balance text institution statement_type = Inr b \<longrightarrow>
        to_float (clean_amount (grp 1 m)) = Inr (b_closing b))"
proof (intro conjI impI)
  assume "statement_type \<noteq> ''credit_card''"
  then show "closing_patterns statement_type =
        [balance_phrase ''closing'' ''balance'', balance_phrase ''ending'' ''balance'',
         balance_phrase ''new'' ''balance'', balance_phrase ''balance'' ''forward'']"
    by (rule closing_patterns_other)
next
  show "closing_patterns ''credit_card'' =
        [balance_phrase ''closing'' ''balance'', balance_phrase ''ending'' ''balance'',
         balance_phrase ''new'' ''balance'', balance_phrase ''balance'' ''forward'',
         balance_phrase ''new'' ''balance'', balance_phrase ''total'' ''balance'',
         balance_phrase ''statement'' ''balance'']"
    by (rule closing_patterns_credit_card)
next
  assume "\<forall>p \<in> set (closing_patterns statement_type). \<not> matches True p text"
  then have "first_search (closing_patterns statement_type) text = None"
    by (rule first_search_no_match)
  moreover assume "extract_balance text institution statement_type = Inr b"
  ultimately show "b_closing b = 0"
    using extract_balance_closing [of "text" institution statement_type b] by simp
next
  assume "\<not> matches True (balance_phrase ''closing'' ''balance'') text"
    and "\<not> matches True (balance_phrase ''ending'' ''balance'') text"
    and "re_search True (balance_phrase ''new'' ''balance'') text = Some m"
  then have "first_search (closing_patterns statement_type) text = Some m"
    unfolding closing_patterns_def append_Cons by (rule first_search_third)
  moreover assume "extract_balance text institution statement_type = Inr b"
  ultimately show "to_float (clean_amount (grp 1 m)) = Inr (b_closing b)"
    using extract_balance_closing [of "text" institution statement_type b] by simp
qed

theorem closing_balance_patterns_witness:
  "list_all (\<lambda>p. \<not> matches True p sentinel_text) (closing_patterns ''unknown'')
   \<and> extract_balance sentinel_text ''unknown'' ''unknown'' =
        Inr \<lparr>b_closing = 0, b_opening = None\<rparr>
   \<and> b_closing \<lparr>b_closing = 0, b_opening = None\<rparr> = 0
   \<and> length (closing_patterns ''unknown'') = 4
   \<and> length (closing_patterns ''credit_card'') = 7"
proof -
  have h: "\<forall>p \<in> set (closing_patterns ''unknown''). \<not> matches True p sentinel_text"
    using sentinel_closing by (simp only: list_all_iff)
  have u: "''unknown'' \<noteq> ''credit_card''" by simp
  note inst = closing_balance_patterns
    [of "''unknown''" sentinel_text "''unknown''" "\<lparr>b_closing = 0, b_opening = None\<rparr>"]
  from inst h sentinel_balance
  have "b_closing \<lparr>b_closing = 0, b_opening = None\<rparr> = (0 :: rat)" by blast
  moreover from inst u have "length (closing_patterns ''unknown'') = 4" by simp
  moreover from inst have "length (closing_patterns ''credit_card'') = 7" by simp
  ultimately show ?thesis using sentinel_closing sentinel_balance by simp
qed

theorem new_balance_counterexample:
  "detect_statement_type new_balance_text = ''unknown''
   \<and> matches True (balance_phrase ''new'' ''balance'') new_balance_text
   \<and> \<not> matches True (balance_phrase ''closing'' ''balance'') new_balance_text
   \<and> \<not> matches True (balance_phrase ''ending'' ''balance'') new_balance_text
   \<and> \<not> matches True (balance_phrase ''balance'' ''forward'') new_balance_text
   \<and> extract_balance new_balance_text (detect_institution new_balance_text)
         (detect_statement_type new_balance_text) =
        Inr \<lparr>b_closing = 100, b_opening = None\<rparr>"
  by (simp add: new_balance_type new_balance_institution new_balance_matches
      new_balance_result)

text \<open>
  C4. The account-number patterns are applied only to a statement of type \<open>bank\<close> or
  \<open>credit_card\<close>. There the first pattern, in the order of the list, that matches the
  text decides: the number is \<open>xxxx-xxxx-xxxx-\<close> followed by the four digits that the
  group of the pattern captured. When no account-number pattern matches, the number is
  \<open>Unknown\<close>, and when no holder-name pattern matches, the name is absent. For a
  statement of any other type the patterns are not applied: the number is \<open>Unknown\<close>
  and the name is absent, whatever the text holds.
\<close>

theorem account_number_extraction:
  "(statement_type = ''bank'' \<or> statement_type = ''credit_card'' \<longrightarrow>
      (\<forall>k < length account_patterns. \<forall>m.
          re_search True (account_patterns ! k) text = Some m \<longrightarrow>
          (\<forall>j < k. \<not> matches True (account_patterns ! j) text) \<longrightarrow>
          a_number (extract_account_info text institution statement_type) =
            ''xxxx-xxxx-xxxx-'' @ grp 1 m
          \<and> four_digits (grp 1 m))
      \<and> ((\<forall>p \<in> set account_patterns. \<not> matches True p text) \<longrightarrow>
           a_number (extract_account_info text institution statement_type) = ''Unknown'')
      \<and> ((\<forall>p \<in> set name_patterns. \<not> matches True p text) \<longrightarrow>
           a_name (extract_account_info text institution statement_type) = None))
   \<and> (statement_type \<noteq> ''bank'' \<and> statement_type \<noteq> ''credit_card'' \<longrightarrow>
        a_number (extract_account_info text institution statement_type) = ''Unknown''
        \<and> a_name (extract_account_info text institution statement_type) = None)"
proof (intro conjI impI allI)
  fix k m
  assume t: "statement_type = ''bank'' \<or> statement_type = ''credit_card''"
    and k: "k < length account_patterns"
    and m: "re_search True (account_patterns ! k) text = Some m"
    and n: "\<forall>j < k. \<not> matches True (account_patterns ! j) text"
  from k m n have "first_search account_patterns text = Some m"
    by (rule first_search_first_nomatch)
  with t show "a_number (extract_account_info text institution statement_type) =
            ''xxxx-xxxx-xxxx-'' @ grp 1 m"
    by (auto simp: extract_account_info_def)
  from k m show "four_digits (grp 1 m)" by (rule account_pattern_digits)
next
  assume t: "statement_type = ''bank'' \<or> statement_type = ''credit_card''"
    and "\<forall>p \<in> set account_patterns. \<not> matches True p text"
  then have "first_search account_patterns text = None" by (simp add: first_search_no_match)
  with t show "a_number (extract_account_info text institution statement_type) = ''Unknown''"
    by (auto simp: extract_account_info_def)
next
  assume t: "statement_type = ''bank'' \<or> statement_type = ''credit_card''"
    and "\<forall>p \<in> set name_patterns. \<not> matches True p text"
  then have "first_search name_patterns text = None" by (simp add: first_search_no_match)
  with t show "a_name (extract_account_info text institution statement_type) = None"
    by (auto simp: extract_account_info_def)
next
  assume "statement_type \<noteq> ''bank'' \<and> statement_type \<noteq> ''credit_card''"
  then show "a_number (extract_account_info text institution statement_type) = ''Unknown''"
    and "a_name (extract_account_info text institution statement_type) = None"
    by (simp_all add: extract_account_info_def)
qed

theorem account_number_extraction_witness:
  "detect_statement_type checking_text = ''bank''
   \<and> map_option (grp 1) (re_search True (account_patterns ! 0) checking_text) = Some ''1234''
   \<and> a_number (extract_account_info checking_text (detect_institution checking_text)
        (detect_statement_type checking_text)) = ''xxxx-xxxx-xxxx-1234''
   \<and> list_all (\<lambda>p. \<not> matches True p sentinel_text) account_patterns
   \<and> list_all (\<lambda>p. \<not> matches True p sentinel_text) name_patterns
   \<and> a_number (extract_account_info sentinel_text ''unknown'' ''bank'') = ''Unknown''
   \<and> a_name (extract_account_info sentinel_text ''unknown'' ''bank'') = None
   \<and> a_number (extract_account_info checking_text ''unknown'' ''investment'') = ''Unknown''"
proof -
  let ?m = "\<lparr>m_start = 9, m_end = 33, m_text = ''Account Number: ****1234'',
            m_groups = [(1, ''1234'')], m_rest = []\<rparr>"
  have k: "0 < length account_patterns" by (simp add: account_patterns_def)
  have none: "\<forall>j < (0::nat). \<not> matches True (account_patterns ! j) checking_text" by simp
  have b: "''bank'' = ''bank'' \<or> ''bank'' = ''credit_card''" by simp
  have g: "grp 1 ?m = ''1234''" by (simp add: grp_def)
  from account_number_extraction
    [of "''bank''" checking_text "detect_institution checking_text"] b k checking_match none
  have "a_number (extract_account_info checking_text (detect_institution checking_text)
        ''bank'') = ''xxxx-xxxx-xxxx-'' @ grp 1 ?m" by blast
  then have "a_number (extract_account_info checking_text (detect_institution checking_text)
        ''bank'') = ''xxxx-xxxx-xxxx-'' @ ''1234''" by (simp only: g)
  then have w1: "a_number (extract_account_info checking_text (detect_institution checking_text)
        (detect_statement_type checking_text)) = ''xxxx-xxxx-xxxx-1234''"
    by (simp add: checking_type)
  have cm: "map_option (grp 1) (re_search True (account_patterns ! 0) checking_text) =
      Some ''1234''"
    by (simp only: checking_match option.map g)
  have na: "\<forall>p \<in> set account_patterns. \<not> matches True p sentinel_text"
    and nn: "\<forall>p \<in> set name_patterns. \<not> matches True p sentinel_text"
    using sentinel_account by (simp_all only: list_all_iff)
  from account_number_extraction [of "''bank''" sentinel_text "''unknown''"] b na nn
  have w2: "a_number (extract_account_info sentinel_text ''unknown'' ''bank'') = ''Unknown''"
    and w3: "a_name (extract_account_info sentinel_text ''unknown'' ''bank'') = None"
    by blast+
  have i: "''investment'' \<noteq> ''bank'' \<and> ''investment'' \<noteq> ''credit_card''" by simp
  from account_number_extraction [of "''investment''" checking_text "''unknown''"] i
  have w4: "a_number (extract_account_info checking_text ''unknown'' ''investment'') = ''Unknown''"
    by blast
  show ?thesis using w1 w2 w3 w4 sentinel_account checking_type cm
    by blast
qed

theorem investment_account_counterexample:
  "detect_statement_type brokerage_text = ''investment''
   \<and> map_option (grp 1) (re_search True (account_patterns ! 0) brokerage_text) = Some ''1234''
   \<and> a_number (extract_account_info brokerage_text (detect_institution brokerage_text)
        (detect_statement_type brokerage_text)) = ''Unknown''"
proof -
  have "a_number (extract_account_info brokerage_text (detect_institution brokerage_text)
        (detect_statement_type brokerage_text)) = ''Unknown''"
    by (simp add: brokerage_type extract_account_info_def)
  then show ?thesis using brokerage_type brokerage_match by blast
qed

end
